theory Spec2Isabelle
  imports Complex_Main "HOL-Library.Stream" "HOL-Library.Multiset" "HOL-Library.Option_ord"
begin

section \<open>countryxchange: the refresh pipeline and the country store\<close>

text \<open>
  A shallow embedding of \<^verbatim>\<open>internal/countries/model.go\<close>, \<^verbatim>\<open>service.go\<close>,
  \<^verbatim>\<open>handler.go\<close> and the repository file (\<^verbatim>\<open>UpsertCountry\<close>, \<^verbatim>\<open>GetAll\<close>,
  \<^verbatim>\<open>EnsureTables\<close>, \<^verbatim>\<open>SaveLastRefreshed\<close>).

  Conventions of the model.
  \<^item> A Go pointer field (\<^verbatim>\<open>*string\<close>, \<^verbatim>\<open>*float64\<close>, \<^verbatim>\<open>*time.Time\<close>) and a nullable SQL
    column are an \<open>option\<close>: \<open>None\<close> is \<^verbatim>\<open>nil\<close> / \<^verbatim>\<open>NULL\<close>.
  \<^item> \<^verbatim>\<open>int64\<close> values are \<open>int\<close>: the code compares the population with 0 and converts
    it to \<^verbatim>\<open>float64\<close>, it never does integer arithmetic on it.
  \<^item> A \<^verbatim>\<open>float64\<close> is the real number it denotes. Rounding, infinities and NaN are not
    part of the model; in particular \<open>x / 0 = 0\<close> in HOL while Go yields an infinity or
    NaN, so nothing below is claimed about a quoted rate of 0 beyond the shape of the formula.
  \<^item> A \<^verbatim>\<open>time.Time\<close> is the number of nanoseconds since the Unix epoch.
\<close>

subsection \<open>model.go: the record and its validation\<close>

type_synonym time = int

record Country =
  ID :: int
  Name :: string
  Capital :: "string option"
  Region :: "string option"
  Population :: int
  CurrencyCode :: "string option"
  ExchangeRate :: "real option"
  EstimatedGDP :: "real option"
  FlagURL :: "string option"
  LastRefreshedAt :: "time option"

text \<open>
  The values of Go's \<^verbatim>\<open>error\<close> interface that these functions produce:
  \<^verbatim>\<open>ExternalError{API}\<close>, \<^verbatim>\<open>*ValidationError{Errors}\<close>, and an error of the SQL driver
  (opaque to the program; the text stands for its message).
\<close>

datatype error =
    ExternalError string
  | ValidationError "string \<rightharpoonup> string"
  | DriverError string

text \<open>\<^verbatim>\<open>func (c *Country) Validate() error\<close>; \<open>None\<close> is the \<^verbatim>\<open>nil\<close> error.\<close>

definition Validate :: "Country \<Rightarrow> error option" where
  "Validate c =
     (let errors = Map.empty;
          errors = (if Name c = [] then errors(''name'' \<mapsto> ''is required'') else errors);
          errors = (if Population c \<le> 0
                    then errors(''population'' \<mapsto> ''must be positive'') else errors);
          errors = (if CurrencyCode c = None \<or> the (CurrencyCode c) = []
                    then errors(''currency_code'' \<mapsto> ''is required'') else errors)
      in if dom errors \<noteq> {} then Some (ValidationError errors) else None)"

subsection \<open>service.go: the fetched data and the derivation of one record\<close>

text \<open>
  \<^verbatim>\<open>restCountry\<close>; \<^verbatim>\<open>Currencies\<close> is a list of one-field structs, kept as the list of
  their \<^verbatim>\<open>Code\<close>s. The fields carry the prefix \<open>rc\<close>: the names of \<open>Country\<close> are taken.
\<close>

record restCountry =
  rcName :: string
  rcCapital :: string
  rcRegion :: string
  rcPopulation :: int
  rcFlag :: string
  rcCurrencies :: "string list"

record ratesResp =
  Result :: string
  Rates :: "string \<rightharpoonup> real"

text \<open>
  \<^verbatim>\<open>*rand.Rand\<close> of \<^verbatim>\<open>math/rand\<close>, a library outside the repository. The generator is the
  stream of the raw numbers it will produce; \<^verbatim>\<open>r.Intn(n)\<close> consumes one of them and returns
  a number in \<open>[0, n)\<close>, which is the library's documented contract.
\<close>

type_synonym rng = "nat stream"

definition Intn :: "rng \<Rightarrow> nat \<Rightarrow> nat \<times> rng" where
  "Intn r n = (shd r mod n, stl r)"

text \<open>
  Lines 121 to 145 of \<^verbatim>\<open>Refresh\<close>: currency code, exchange rate and estimated GDP of one
  fetched record, and the generator after it.
\<close>

definition estimate :: "int \<Rightarrow> nat \<Rightarrow> real \<Rightarrow> real" where
  "estimate population multiplier rate = real_of_int population * real multiplier / rate"

definition derive ::
  "restCountry \<Rightarrow> (string \<rightharpoonup> real) \<Rightarrow> rng \<Rightarrow>
     (string option \<times> real option \<times> real option) \<times> rng" where
  "derive rcountry rates r =
     (if length (rcCurrencies rcountry) > 0 \<and> rcCurrencies rcountry ! 0 \<noteq> []
      then (let code = rcCurrencies rcountry ! 0 in
            case rates code of
              Some rate \<Rightarrow>
                (let (n, r') = Intn r 1001;
                     mult = n + 1000;
                     est = estimate (rcPopulation rcountry) mult rate
                 in ((Some code, Some rate, Some est), r'))
            | None \<Rightarrow> ((Some code, None, None), r))
      else ((None, None, Some 0), r))"

text \<open>
  Lines 121 to 163: the \<^verbatim>\<open>Country\<close> handed to validation. \<^verbatim>\<open>ID\<close> keeps Go's zero value.
\<close>

definition candidate ::
  "restCountry \<Rightarrow> (string \<rightharpoonup> real) \<Rightarrow> time \<Rightarrow> rng \<Rightarrow> Country \<times> rng" where
  "candidate rcountry rates now r =
     (let ((currencyCode, exchangeRate, estimatedGDP), r') = derive rcountry rates r
      in (\<lparr> ID = 0,
            Name = rcName rcountry,
            Capital = (if rcCapital rcountry \<noteq> [] then Some (rcCapital rcountry) else None),
            Region = (if rcRegion rcountry \<noteq> [] then Some (rcRegion rcountry) else None),
            Population = rcPopulation rcountry,
            CurrencyCode = currencyCode,
            ExchangeRate = exchangeRate,
            EstimatedGDP = estimatedGDP,
            FlagURL = (if rcFlag rcountry \<noteq> [] then Some (rcFlag rcountry) else None),
            LastRefreshedAt = Some now \<rparr>, r'))"


subsection \<open>The store: tables, collation, transactions\<close>

text \<open>
  SQL's \<^verbatim>\<open>LOWER\<close> and the comparison \<^verbatim>\<open>=\<close> of two texts. The schema file of the repository
  declares the tables with \<^verbatim>\<open>COLLATE=utf8mb4_general_ci\<close>, and \<^verbatim>\<open>EnsureTables\<close> names no
  collation, which leaves MySQL's default, case-insensitive as well: two texts are equal
  when they agree after case folding. The model folds the letters A to Z and leaves every
  other byte alone.
\<close>

definition lower_char :: "char \<Rightarrow> char" where
  "lower_char c =
     (case map_of (zip ''ABCDEFGHIJKLMNOPQRSTUVWXYZ'' ''abcdefghijklmnopqrstuvwxyz'') c of
        Some l \<Rightarrow> l
      | None \<Rightarrow> c)"

definition LOWER :: "string \<Rightarrow> string" where
  "LOWER s = map lower_char s"

definition sql_eq :: "string \<Rightarrow> string \<Rightarrow> bool" where
  "sql_eq a b \<longleftrightarrow> LOWER a = LOWER b"

text \<open>
  The \<^verbatim>\<open>metadata\<close> row that \<^verbatim>\<open>SaveLastRefreshed\<close> writes. \<^verbatim>\<open>meta_value\<close> is the text
  \<^verbatim>\<open>t.UTC().Format(time.RFC3339)\<close>, which prints the time to the second: \<open>RFC3339 s\<close> stands
  for the text of the UTC second \<open>s\<close>.
\<close>

datatype rfc3339_text = RFC3339 int

record metadata_row =
  meta_value :: rfc3339_text
  updated_at :: time

text \<open>
  The database. A table that was never created is \<open>None\<close>. The rows of \<^verbatim>\<open>countries\<close> are
  \<open>Country\<close> records (the scan of \<^verbatim>\<open>GetAll\<close> maps each nullable column to the pointer
  field of the same name); \<open>next_id\<close> is the \<^verbatim>\<open>AUTO_INCREMENT\<close> counter of \<^verbatim>\<open>countries.id\<close>.
  A transaction is a working copy of the database: a commit installs it, a rollback drops
  it (InnoDB does not hand a consumed counter value back, so the counter stays).
\<close>

record store =
  countries :: "Country list option"
  metadata :: "(string \<rightharpoonup> metadata_row) option"
  next_id :: int

text \<open>
  The SQL server is outside the program, and any statement sent to it may fail. \<open>faults\<close>
  says which statements of one run of \<^verbatim>\<open>Refresh\<close> fail, and with which driver message;
  \<open>upsert_err k\<close> is the outcome of the \<^verbatim>\<open>Exec\<close> of the upsert that follows \<open>k\<close> successful
  ones.
\<close>

record faults =
  create_countries_err :: "string option"
  create_metadata_err :: "string option"
  begin_err :: "string option"
  upsert_err :: "nat \<Rightarrow> string option"
  save_err :: "string option"
  commit_err :: "string option"

text \<open>\<^verbatim>\<open>EnsureTables\<close>: two \<^verbatim>\<open>CREATE TABLE IF NOT EXISTS\<close>, the second only after the first.\<close>

definition EnsureTables :: "faults \<Rightarrow> store \<Rightarrow> error option \<times> store" where
  "EnsureTables f db =
     (case create_countries_err f of
        Some e \<Rightarrow> (Some (DriverError e), db)
      | None \<Rightarrow>
         (let db1 = (case countries db of None \<Rightarrow> db\<lparr>countries := Some []\<rparr> | Some _ \<Rightarrow> db) in
          case create_metadata_err f of
            Some e \<Rightarrow> (Some (DriverError e), db1)
          | None \<Rightarrow>
              (None, case metadata db1 of
                       None \<Rightarrow> db1\<lparr>metadata := Some Map.empty\<rparr>
                     | Some _ \<Rightarrow> db1)))"

text \<open>
  \<^verbatim>\<open>UpsertCountry\<close>: \<^verbatim>\<open>INSERT ... ON DUPLICATE KEY UPDATE\<close> inside the transaction. The only
  unique key the statement can collide on is \<^verbatim>\<open>unique_name (name)\<close>, since the statement
  gives no \<^verbatim>\<open>id\<close>. A colliding row keeps \<^verbatim>\<open>id\<close> and \<^verbatim>\<open>name\<close> and takes the eight listed
  columns; otherwise a row with the next \<^verbatim>\<open>id\<close> is added.
\<close>

definition on_duplicate_key_update :: "Country \<Rightarrow> Country \<Rightarrow> Country" where
  "on_duplicate_key_update row c =
     row\<lparr> Capital := Capital c,
          Region := Region c,
          Population := Population c,
          CurrencyCode := CurrencyCode c,
          ExchangeRate := ExchangeRate c,
          EstimatedGDP := EstimatedGDP c,
          FlagURL := FlagURL c,
          LastRefreshedAt := LastRefreshedAt c \<rparr>"

definition insert_row :: "int \<Rightarrow> Country \<Rightarrow> Country" where
  "insert_row i c =
     \<lparr> ID = i, Name = Name c, Capital = Capital c, Region = Region c,
       Population = Population c, CurrencyCode = CurrencyCode c,
       ExchangeRate = ExchangeRate c, EstimatedGDP = EstimatedGDP c,
       FlagURL = FlagURL c, LastRefreshedAt = LastRefreshedAt c \<rparr>"

definition UpsertCountry :: "string option \<Rightarrow> store \<Rightarrow> Country \<Rightarrow> error option \<times> store" where
  "UpsertCountry fault tx c =
     (case fault of
        Some e \<Rightarrow> (Some (DriverError e), tx)
      | None \<Rightarrow>
         (case countries tx of
            None \<Rightarrow> (Some (DriverError ''Table countries does not exist''), tx)
          | Some rows \<Rightarrow>
              if \<exists>row \<in> set rows. sql_eq (Name row) (Name c)
              then (None, tx\<lparr>countries := Some (map (\<lambda>row. if sql_eq (Name row) (Name c)
                                                            then on_duplicate_key_update row c
                                                            else row) rows)\<rparr>)
              else (None, tx\<lparr>countries := Some (rows @ [insert_row (next_id tx) c]),
                              next_id := next_id tx + 1\<rparr>)))"

text \<open>\<^verbatim>\<open>SaveLastRefreshed\<close>: the upsert of the one \<^verbatim>\<open>metadata\<close> row.\<close>

definition SaveLastRefreshed :: "string option \<Rightarrow> store \<Rightarrow> time \<Rightarrow> error option \<times> store" where
  "SaveLastRefreshed fault tx t =
     (case fault of
        Some e \<Rightarrow> (Some (DriverError e), tx)
      | None \<Rightarrow>
         (case metadata tx of
            None \<Rightarrow> (Some (DriverError ''Table metadata does not exist''), tx)
          | Some m \<Rightarrow>
              (None, tx\<lparr>metadata := Some (m(''last_refreshed_at'' \<mapsto>
                          \<lparr> meta_value = RFC3339 (t div 1000000000), updated_at = t \<rparr>))\<rparr>)))"

text \<open>
  \<^verbatim>\<open>tx.Rollback()\<close> and \<^verbatim>\<open>tx.Commit()\<close>, as they leave the database. A commit that fails
  installs nothing: it leaves what a rollback leaves, and the \<^verbatim>\<open>Rollback\<close> that \<^verbatim>\<open>Refresh\<close>
  calls after it changes nothing more.
\<close>

definition Rollback :: "store \<Rightarrow> store \<Rightarrow> store" where
  "Rollback db tx = db\<lparr>next_id := next_id tx\<rparr>"

definition Commit :: "string option \<Rightarrow> store \<Rightarrow> store \<Rightarrow> error option \<times> store" where
  "Commit fault db tx =
     (case fault of
        Some e \<Rightarrow> (Some (DriverError e), Rollback db tx)
      | None \<Rightarrow> (None, tx))"


subsection \<open>service.go: Refresh\<close>

text \<open>
  What one \<^verbatim>\<open>client.Do\<close> and the decoding of its body give: a transport error, or a
  response with its status code and the decoded payload (\<open>None\<close> when
  \<^verbatim>\<open>json.Decoder.Decode\<close> fails).
\<close>

datatype 'a http_result = TransportError | Response nat "'a option"

text \<open>
  Everything outside the program that one call of \<^verbatim>\<open>Refresh\<close> reads: the two responses, the
  clock (\<^verbatim>\<open>time.Now().UTC()\<close> of line 111), the freshly seeded generator, and the faults of
  the SQL server.
\<close>

record env =
  countries_response :: "restCountry list http_result"
  rates_response :: "ratesResp http_result"
  clock_now :: time
  seeded_rand :: rng
  db_faults :: faults

record RefreshResult =
  Total :: nat
  LastRefreshed :: time

text \<open>
  Lines 59 to 75 and 78 to 94: the same three checks for either source, with the name of the
  API in the error.
\<close>

definition fetch :: "string \<Rightarrow> 'a http_result \<Rightarrow> error + 'a" where
  "fetch api resp =
     (case resp of
        TransportError \<Rightarrow> Inl (ExternalError api)
      | Response status body \<Rightarrow>
          if status \<noteq> 200 then Inl (ExternalError api)
          else (case body of
                  None \<Rightarrow> Inl (ExternalError api)
                | Some payload \<Rightarrow> Inr payload))"

text \<open>
  Lines 113 to 180, the loop over the fetched records: the error of a failed upsert or
  \<^verbatim>\<open>nil\<close>, the transaction, the generator and \<^verbatim>\<open>processed\<close>.
\<close>

fun merge_loop ::
  "(nat \<Rightarrow> string option) \<Rightarrow> (string \<rightharpoonup> real) \<Rightarrow> time \<Rightarrow> restCountry list \<Rightarrow>
     store \<Rightarrow> rng \<Rightarrow> nat \<Rightarrow> error option \<times> store \<times> rng \<times> nat" where
  "merge_loop uerr rates now [] tx r processed = (None, tx, r, processed)"
| "merge_loop uerr rates now (rcountry # rc) tx r processed =
     (if rcName rcountry = [] then merge_loop uerr rates now rc tx r processed
      else (let (c, r') = candidate rcountry rates now r in
            case Validate c of
              Some verr \<Rightarrow> merge_loop uerr rates now rc tx r' processed
            | None \<Rightarrow>
                (case UpsertCountry (uerr processed) tx c of
                   (Some err, tx') \<Rightarrow> (Some err, tx', r', processed)
                 | (None, tx') \<Rightarrow> merge_loop uerr rates now rc tx' r' (processed + 1))))"

text \<open>Lines 102 to 205: the transaction, from \<^verbatim>\<open>BeginTx\<close> to the result.\<close>

definition in_transaction ::
  "faults \<Rightarrow> restCountry list \<Rightarrow> ratesResp \<Rightarrow> time \<Rightarrow> rng \<Rightarrow> store \<Rightarrow>
     (error + RefreshResult) \<times> store" where
  "in_transaction f rc rr now r db =
     (case begin_err f of
        Some e \<Rightarrow> (Inl (DriverError e), db)
      | None \<Rightarrow>
         (case merge_loop (upsert_err f) (Rates rr) now rc db r 0 of
            (Some err, tx, _, _) \<Rightarrow> (Inl err, Rollback db tx)
          | (None, tx, _, processed) \<Rightarrow>
              (case SaveLastRefreshed (save_err f) tx now of
                 (Some err, tx') \<Rightarrow> (Inl err, Rollback db tx')
               | (None, tx') \<Rightarrow>
                   (case Commit (commit_err f) db tx' of
                      (Some err, db') \<Rightarrow> (Inl err, db')
                    | (None, db') \<Rightarrow>
                        (Inr \<lparr> Total = processed, LastRefreshed = now \<rparr>, db')))))"

text \<open>
  \<^verbatim>\<open>Refresh\<close>: the result handed to the caller and the database it leaves. The detached
  goroutine that redraws the summary image reads the database and writes a file; it is no
  part of either.
\<close>

definition Refresh :: "env \<Rightarrow> store \<Rightarrow> (error + RefreshResult) \<times> store" where
  "Refresh e db =
     (case fetch ''restcountries'' (countries_response e) of
        Inl err \<Rightarrow> (Inl err, db)
      | Inr rc \<Rightarrow>
         (case fetch ''exchangerates'' (rates_response e) of
            Inl err \<Rightarrow> (Inl err, db)
          | Inr rr \<Rightarrow>
             (case EnsureTables (db_faults e) db of
                (Some err, db1) \<Rightarrow> (Inl err, db1)
              | (None, db1) \<Rightarrow>
                  in_transaction (db_faults e) rc rr (clock_now e) (seeded_rand e) db1)))"

text \<open>
  handler.go, \<^verbatim>\<open>POST /countries/refresh\<close>: the HTTP status chosen for the result of
  \<^verbatim>\<open>Refresh\<close>.
\<close>

definition refresh_status :: "error + RefreshResult \<Rightarrow> nat" where
  "refresh_status res =
     (case res of
        Inl (ValidationError _) \<Rightarrow> 400
      | Inl (ExternalError _) \<Rightarrow> 503
      | Inl (DriverError _) \<Rightarrow> 500
      | Inr _ \<Rightarrow> 200)"

subsection \<open>The store: GetAll\<close>














subsection \<open>Notions used to state the properties\<close>

text \<open>
  The records that one pass of the loop hands to \<^verbatim>\<open>UpsertCountry\<close>, in order, as long as no
  upsert fails: the candidates with a name that pass validation, each built with the
  generator as the records before it left it.
\<close>

fun upserts :: "(string \<rightharpoonup> real) \<Rightarrow> time \<Rightarrow> restCountry list \<Rightarrow> rng \<Rightarrow> Country list" where
  "upserts rates now [] r = []"
| "upserts rates now (rcountry # rc) r =
     (if rcName rcountry = [] then upserts rates now rc r
      else (let (c, r') = candidate rcountry rates now r in
            case Validate c of
              Some verr \<Rightarrow> upserts rates now rc r'
            | None \<Rightarrow> c # upserts rates now rc r'))"

text \<open>A sequence of upserts that all succeed, applied to a transaction.\<close>

definition run_upserts :: "store \<Rightarrow> Country list \<Rightarrow> store" where
  "run_upserts tx cs = foldl (\<lambda>t c. snd (UpsertCountry None t c)) tx cs"

text \<open>
  \<^verbatim>\<open>UNIQUE KEY unique_name (name)\<close> of the schema, which the server keeps true of every
  state of the table: no two rows have equal names.
\<close>

definition unique_name :: "store \<Rightarrow> bool" where
  "unique_name db =
     (case countries db of
        None \<Rightarrow> True
      | Some rows \<Rightarrow> distinct (map (\<lambda>row. LOWER (Name row)) rows))"


subsection \<open>Sample data\<close>

text \<open>Concrete inputs, on which the properties below are evaluated.\<close>

definition sample_country :: "string \<Rightarrow> int \<Rightarrow> string list \<Rightarrow> restCountry" where
  "sample_country name population codes =
     \<lparr> rcName = name, rcCapital = [], rcRegion = [], rcPopulation = population,
       rcFlag = [], rcCurrencies = codes \<rparr>"

definition no_faults :: faults where
  "no_faults =
     \<lparr> create_countries_err = None, create_metadata_err = None, begin_err = None,
       upsert_err = (\<lambda>k. None), save_err = None, commit_err = None \<rparr>"

definition sample_env :: "restCountry list \<Rightarrow> (string \<rightharpoonup> real) \<Rightarrow> time \<Rightarrow> faults \<Rightarrow> env" where
  "sample_env rc rates now f =
     \<lparr> countries_response = Response 200 (Some rc),
       rates_response = Response 200 (Some \<lparr> Result = ''success'', Rates = rates \<rparr>),
       clock_now = now,
       seeded_rand = sconst 500,
       db_faults = f \<rparr>"

definition empty_store :: store where
  "empty_store = \<lparr> countries = None, metadata = None, next_id = 1 \<rparr>"



section \<open>Properties\<close>

subsection \<open>Validation\<close>

text \<open>
  Claim C5. \<^verbatim>\<open>Validate\<close> returns \<^verbatim>\<open>nil\<close> exactly when the name is not empty, the population
  is greater than 0 and the currency code is present and not empty. Otherwise it returns a
  \<^verbatim>\<open>ValidationError\<close> whose map holds the reason of each requirement that is violated and
  nothing else: \<open>name\<close> is a key exactly when the name is empty, \<open>population\<close> exactly when
  the population is at most 0, \<open>currency_code\<close> exactly when the code is \<^verbatim>\<open>nil\<close> or empty,
  and there is no other key.
\<close>

theorem Validate_spec:
  "(Validate c = None \<longleftrightarrow>
      Name c \<noteq> [] \<and> 0 < Population c \<and> (\<exists>code. CurrencyCode c = Some code \<and> code \<noteq> [])) \<and>
   (Validate c \<noteq> None \<longrightarrow>
      (\<exists>errors. Validate c = Some (ValidationError errors) \<and>
         errors ''name'' = (if Name c = [] then Some ''is required'' else None) \<and>
         errors ''population'' = (if Population c \<le> 0 then Some ''must be positive'' else None) \<and>
         errors ''currency_code'' =
           (if CurrencyCode c = None \<or> CurrencyCode c = Some [] then Some ''is required'' else None) \<and>
         dom errors \<subseteq> {''name'', ''population'', ''currency_code''}))"
  by (cases "CurrencyCode c") (auto simp: Validate_def Let_def)

theorem Validate_spec_witness:
  "Validate \<lparr> ID = 0, Name = ''Wakanda'', Capital = None, Region = None, Population = 5,
              CurrencyCode = Some ''USD'', ExchangeRate = None, EstimatedGDP = None,
              FlagURL = None, LastRefreshedAt = None \<rparr> = None \<and>
   (\<exists>errors.
      Validate \<lparr> ID = 0, Name = [], Capital = None, Region = None, Population = 0,
                 CurrencyCode = Some [], ExchangeRate = None, EstimatedGDP = Some 0,
                 FlagURL = None, LastRefreshedAt = None \<rparr> = Some (ValidationError errors) \<and>
      errors ''name'' = Some ''is required'' \<and>
      errors ''population'' = Some ''must be positive'' \<and>
      errors ''currency_code'' = Some ''is required'') \<and>
   (\<exists>errors.
      Validate \<lparr> ID = 0, Name = ''Wakanda'', Capital = None, Region = None, Population = -3,
                 CurrencyCode = Some ''USD'', ExchangeRate = None, EstimatedGDP = None,
                 FlagURL = None, LastRefreshedAt = None \<rparr> = Some (ValidationError errors) \<and>
      errors ''name'' = None \<and>
      errors ''population'' = Some ''must be positive'' \<and>
      errors ''currency_code'' = None)"
  using
    Validate_spec [of "\<lparr> ID = 0, Name = ''Wakanda'', Capital = None, Region = None, Population = 5,
              CurrencyCode = Some ''USD'', ExchangeRate = None, EstimatedGDP = None,
              FlagURL = None, LastRefreshedAt = None \<rparr>"]
    Validate_spec [of "\<lparr> ID = 0, Name = [], Capital = None, Region = None, Population = 0,
                 CurrencyCode = Some [], ExchangeRate = None, EstimatedGDP = Some 0,
                 FlagURL = None, LastRefreshedAt = None \<rparr>"]
    Validate_spec [of "\<lparr> ID = 0, Name = ''Wakanda'', Capital = None, Region = None, Population = -3,
                 CurrencyCode = Some ''USD'', ExchangeRate = None, EstimatedGDP = None,
                 FlagURL = None, LastRefreshedAt = None \<rparr>"]
  by auto


subsection \<open>The derivation of one record\<close>

lemma candidate_fields:
  "CurrencyCode (fst (candidate rcountry rates now r)) = fst (fst (derive rcountry rates r))"
  "ExchangeRate (fst (candidate rcountry rates now r)) = fst (snd (fst (derive rcountry rates r)))"
  "EstimatedGDP (fst (candidate rcountry rates now r)) = snd (snd (fst (derive rcountry rates r)))"
  "Name (fst (candidate rcountry rates now r)) = rcName rcountry"
  "Population (fst (candidate rcountry rates now r)) = rcPopulation rcountry"
  "LastRefreshedAt (fst (candidate rcountry rates now r)) = Some now"
  "snd (candidate rcountry rates now r) = snd (derive rcountry rates r)"
  by (simp_all add: candidate_def split: prod.splits)

lemma derive_no_currency:
  "rcCurrencies rcountry = [] \<or> hd (rcCurrencies rcountry) = [] \<Longrightarrow>
   derive rcountry rates r = ((None, None, Some 0), r)"
  by (cases "rcCurrencies rcountry") (auto simp: derive_def)

lemma derive_not_quoted:
  "rcCurrencies rcountry = code # cs \<Longrightarrow> code \<noteq> [] \<Longrightarrow> rates code = None \<Longrightarrow>
   derive rcountry rates r = ((Some code, None, None), r)"
  by (simp add: derive_def)

lemma derive_quoted:
  "rcCurrencies rcountry = code # cs \<Longrightarrow> code \<noteq> [] \<Longrightarrow> rates code = Some rate \<Longrightarrow>
   derive rcountry rates r =
     ((Some code, Some rate,
       Some (estimate (rcPopulation rcountry) (fst (Intn r 1001) + 1000) rate)), snd (Intn r 1001))"
  by (simp add: derive_def split: prod.splits)


text \<open>
  Claim C1. The three-way policy of the derivation, for every fetched record (the loop
  derives the ones with a name). The code looks at the first currency entry only: when
  there is no entry, or the first entry's code is empty, the currency code and the exchange
  rate are absent and the estimated value is 0; when the first code is not empty and is no
  key of the rate map, the code is present, the rate and the estimate are absent; when it
  is a key, the rate is the one found and the estimate is computed from the population,
  that rate and the multiplier drawn from the generator.
\<close>

theorem derivation_policy:
  "(rcCurrencies rcountry = [] \<or> hd (rcCurrencies rcountry) = [] \<longrightarrow>
      CurrencyCode (fst (candidate rcountry rates now r)) = None \<and>
      ExchangeRate (fst (candidate rcountry rates now r)) = None \<and>
      EstimatedGDP (fst (candidate rcountry rates now r)) = Some 0) \<and>
   (\<forall>code cs. rcCurrencies rcountry = code # cs \<and> code \<noteq> [] \<and> rates code = None \<longrightarrow>
      CurrencyCode (fst (candidate rcountry rates now r)) = Some code \<and>
      ExchangeRate (fst (candidate rcountry rates now r)) = None \<and>
      EstimatedGDP (fst (candidate rcountry rates now r)) = None) \<and>
   (\<forall>code cs rate. rcCurrencies rcountry = code # cs \<and> code \<noteq> [] \<and> rates code = Some rate \<longrightarrow>
      CurrencyCode (fst (candidate rcountry rates now r)) = Some code \<and>
      ExchangeRate (fst (candidate rcountry rates now r)) = Some rate \<and>
      EstimatedGDP (fst (candidate rcountry rates now r)) =
        Some (estimate (rcPopulation rcountry) (fst (Intn r 1001) + 1000) rate))"
  by (simp add: candidate_fields derive_no_currency derive_not_quoted derive_quoted)


theorem derivation_policy_witness:
  "(let c = fst (candidate \<lparr> rcName = ''Atlantis'', rcCapital = [], rcRegion = [],
                             rcPopulation = 1000000, rcFlag = [], rcCurrencies = [] \<rparr>
                           [''USD'' \<mapsto> 2] 7 (sconst 0))
    in CurrencyCode c = None \<and> ExchangeRate c = None \<and> EstimatedGDP c = Some 0) \<and>
   (let c = fst (candidate \<lparr> rcName = ''Atlantis'', rcCapital = [], rcRegion = [],
                             rcPopulation = 1000000, rcFlag = [], rcCurrencies = [[], ''USD''] \<rparr>
                           [''USD'' \<mapsto> 2] 7 (sconst 0))
    in CurrencyCode c = None \<and> ExchangeRate c = None \<and> EstimatedGDP c = Some 0) \<and>
   (let c = fst (candidate \<lparr> rcName = ''Atlantis'', rcCapital = [], rcRegion = [],
                             rcPopulation = 1000000, rcFlag = [], rcCurrencies = [''XYZ''] \<rparr>
                           [''USD'' \<mapsto> 2] 7 (sconst 0))
    in CurrencyCode c = Some ''XYZ'' \<and> ExchangeRate c = None \<and> EstimatedGDP c = None) \<and>
   (let c = fst (candidate \<lparr> rcName = ''Atlantis'', rcCapital = [], rcRegion = [],
                             rcPopulation = 1000000, rcFlag = [], rcCurrencies = [''EUR'', ''USD''] \<rparr>
                           [''USD'' \<mapsto> 2, ''EUR'' \<mapsto> 4] 7 (sconst 0))
    in CurrencyCode c = Some ''EUR'' \<and> ExchangeRate c = Some 4 \<and>
       EstimatedGDP c = Some 250000000)"
  using
    derivation_policy [of "\<lparr> rcName = ''Atlantis'', rcCapital = [], rcRegion = [],
                             rcPopulation = 1000000, rcFlag = [], rcCurrencies = [] \<rparr>"
                          "[''USD'' \<mapsto> 2]" 7 "sconst 0"]
    derivation_policy [of "\<lparr> rcName = ''Atlantis'', rcCapital = [], rcRegion = [],
                             rcPopulation = 1000000, rcFlag = [], rcCurrencies = [[], ''USD''] \<rparr>"
                          "[''USD'' \<mapsto> 2]" 7 "sconst 0"]
    derivation_policy [of "\<lparr> rcName = ''Atlantis'', rcCapital = [], rcRegion = [],
                             rcPopulation = 1000000, rcFlag = [], rcCurrencies = [''XYZ''] \<rparr>"
                          "[''USD'' \<mapsto> 2]" 7 "sconst 0"]
    derivation_policy [of "\<lparr> rcName = ''Atlantis'', rcCapital = [], rcRegion = [],
                             rcPopulation = 1000000, rcFlag = [], rcCurrencies = [''EUR'', ''USD''] \<rparr>"
                          "[''USD'' \<mapsto> 2, ''EUR'' \<mapsto> 4]" 7 "sconst 0"]
  by (simp add: Intn_def estimate_def)


subsection \<open>The estimated value\<close>

lemma multiplier_bij: "bij_betw (\<lambda>n::nat. n + 1000) {0..<1001} {1000..2000}"
  by (rule bij_betw_byWitness [where f' = "\<lambda>m. m - 1000"]) auto


text \<open>
  Claim C4. Where the first currency code is quoted in the rate map, the derivation draws
  exactly one sample \<open>n\<close> from \<^verbatim>\<open>Intn(1001)\<close> (the generator moves on by one), the
  multiplier \<open>n + 1000\<close> lies in 1000..2000, and the estimated value is population times
  multiplier divided by rate. Adding 1000 maps the samples 0..1000 one-to-one onto
  1000..2000, so the multiplier is as uniform as the library's sample is. For population
  1000000, multiplier 1500 and rate 2 the value is 750000000.
\<close>

theorem estimated_value_formula:
  "(\<forall>code cs rate.
      rcCurrencies rcountry = code # cs \<and> code \<noteq> [] \<and> rates code = Some rate \<longrightarrow>
      (\<exists>n. Intn r 1001 = (n, stl r) \<and> n < 1001 \<and> 1000 \<le> n + 1000 \<and> n + 1000 \<le> 2000 \<and>
           derive rcountry rates r =
             ((Some code, Some rate,
               Some (real_of_int (rcPopulation rcountry) * real (n + 1000) / rate)), stl r))) \<and>
   bij_betw (\<lambda>n::nat. n + 1000) {0..<1001} {1000..2000} \<and>
   estimate 1000000 1500 2 = 750000000"
proof (intro conjI allI impI)
  fix code cs rate
  assume h: "rcCurrencies rcountry = code # cs \<and> code \<noteq> [] \<and> rates code = Some rate"
  define n where "n = fst (Intn r 1001)"
  have n: "Intn r 1001 = (n, stl r)" "n < 1001"
    by (simp_all add: n_def Intn_def)
  have "derive rcountry rates r =
          ((Some code, Some rate,
            Some (real_of_int (rcPopulation rcountry) * real (n + 1000) / rate)), stl r)"
    using h n(1) derive_quoted [of rcountry code cs rates rate r]
    by (simp add: estimate_def)
  with n show "\<exists>n. Intn r 1001 = (n, stl r) \<and> n < 1001 \<and> 1000 \<le> n + 1000 \<and> n + 1000 \<le> 2000 \<and>
           derive rcountry rates r =
             ((Some code, Some rate,
               Some (real_of_int (rcPopulation rcountry) * real (n + 1000) / rate)), stl r)"
    by auto
next
  show "bij_betw (\<lambda>n::nat. n + 1000) {0..<1001} {1000..2000}"
    by (rule multiplier_bij)
next
  show "estimate 1000000 1500 2 = 750000000"
    by (simp add: estimate_def)
qed

theorem estimated_value_formula_witness:
  "derive \<lparr> rcName = ''Freedonia'', rcCapital = [], rcRegion = [], rcPopulation = 1000000,
            rcFlag = [], rcCurrencies = [''USD''] \<rparr> [''USD'' \<mapsto> 2] (500 ## sconst 3) =
     ((Some ''USD'', Some 2, Some 750000000), sconst 3)"
proof -
  let ?rc = "\<lparr> rcName = ''Freedonia'', rcCapital = [], rcRegion = [], rcPopulation = 1000000,
            rcFlag = [], rcCurrencies = [''USD''] \<rparr>"
  have h: "rcCurrencies ?rc = ''USD'' # [] \<and> ''USD'' \<noteq> [] \<and> [''USD'' \<mapsto> 2::real] ''USD'' = Some 2"
    by simp
  from estimated_value_formula [of ?rc "[''USD'' \<mapsto> 2]" "500 ## sconst 3"] h
  obtain n where "Intn (500 ## sconst 3) 1001 = (n, stl (500 ## sconst 3))"
    and "derive ?rc [''USD'' \<mapsto> 2] (500 ## sconst 3) =
           ((Some ''USD'', Some 2, Some (real_of_int (rcPopulation ?rc) * real (n + 1000) / 2)),
            stl (500 ## sconst 3))"
    by blast
  then show ?thesis
    by (simp add: Intn_def)
qed


subsection \<open>The estimate and the currency code\<close>

text \<open>
  Claim C6. In every record that the derivation produces, an estimated value that is
  present and not 0 comes with a currency code, quoted in the rate map, with that rate as
  the exchange rate, and is the estimate of the population at that rate; and where the
  currency code is absent the estimated value is exactly 0.
\<close>

theorem estimate_only_with_currency:
  "(\<forall>v. EstimatedGDP (fst (candidate rcountry rates now r)) = Some v \<and> v \<noteq> 0 \<longrightarrow>
      (\<exists>code rate.
         CurrencyCode (fst (candidate rcountry rates now r)) = Some code \<and>
         rates code = Some rate \<and>
         ExchangeRate (fst (candidate rcountry rates now r)) = Some rate \<and>
         v = estimate (rcPopulation rcountry) (fst (Intn r 1001) + 1000) rate)) \<and>
   (CurrencyCode (fst (candidate rcountry rates now r)) = None \<longrightarrow>
      EstimatedGDP (fst (candidate rcountry rates now r)) = Some 0)"
  by (auto simp: candidate_fields derive_def Let_def split: option.splits prod.splits if_splits)

theorem estimate_only_with_currency_witness:
  "EstimatedGDP (fst (candidate \<lparr> rcName = ''Ruritania'', rcCapital = [], rcRegion = [],
                                  rcPopulation = 40, rcFlag = [], rcCurrencies = [''RUR''] \<rparr>
                                [''RUR'' \<mapsto> 8] 0 (sconst 200))) = Some 6000 \<and>
   CurrencyCode (fst (candidate \<lparr> rcName = ''Ruritania'', rcCapital = [], rcRegion = [],
                                  rcPopulation = 40, rcFlag = [], rcCurrencies = [''RUR''] \<rparr>
                                [''RUR'' \<mapsto> 8] 0 (sconst 200))) = Some ''RUR'' \<and>
   CurrencyCode (fst (candidate \<lparr> rcName = ''Ruritania'', rcCapital = [], rcRegion = [],
                                  rcPopulation = 40, rcFlag = [], rcCurrencies = [] \<rparr>
                                [''RUR'' \<mapsto> 8] 0 (sconst 200))) = None \<and>
   EstimatedGDP (fst (candidate \<lparr> rcName = ''Ruritania'', rcCapital = [], rcRegion = [],
                                  rcPopulation = 40, rcFlag = [], rcCurrencies = [] \<rparr>
                                [''RUR'' \<mapsto> 8] 0 (sconst 200))) = Some 0"
  using
    estimate_only_with_currency [of "\<lparr> rcName = ''Ruritania'', rcCapital = [], rcRegion = [],
                                  rcPopulation = 40, rcFlag = [], rcCurrencies = [''RUR''] \<rparr>"
                                "[''RUR'' \<mapsto> 8]" 0 "sconst 200"]
    estimate_only_with_currency [of "\<lparr> rcName = ''Ruritania'', rcCapital = [], rcRegion = [],
                                  rcPopulation = 40, rcFlag = [], rcCurrencies = [] \<rparr>"
                                "[''RUR'' \<mapsto> 8]" 0 "sconst 200"]
  by (simp add: candidate_fields derive_def Intn_def estimate_def)


subsection \<open>The loop of Refresh as a sequence of upserts\<close>

text \<open>
  Whether a candidate passes validation depends on the fetched record and the rate map
  alone, not on the clock or the generator.
\<close>

lemma Validate_cong:
  "Name c = Name c' \<Longrightarrow> Population c = Population c' \<Longrightarrow> CurrencyCode c = CurrencyCode c' \<Longrightarrow>
   Validate c = Validate c'"
  by (simp add: Validate_def)

lemma derive_code_indep:
  "fst (fst (derive x rates r)) = fst (fst (derive x rates r'))"
  by (simp add: derive_def Let_def split: option.splits prod.splits)

lemma Validate_candidate_indep:
  "Validate (fst (candidate x rates now r)) = Validate (fst (candidate x rates now' r'))"
  by (rule Validate_cong) (simp_all add: candidate_fields derive_code_indep [of x rates r r'])

lemma UpsertCountry_ok:
  "countries tx \<noteq> None \<Longrightarrow>
   fst (UpsertCountry None tx c) = None \<and> countries (snd (UpsertCountry None tx c)) \<noteq> None \<and>
   metadata (snd (UpsertCountry None tx c)) = metadata tx"
  by (auto simp: UpsertCountry_def)

lemma UpsertCountry_fault:
  "UpsertCountry (Some msg) tx c = (Some (DriverError msg), tx)"
  by (simp add: UpsertCountry_def)

lemma run_upserts_Nil [simp]: "run_upserts tx [] = tx"
  by (simp add: run_upserts_def)

lemma run_upserts_Cons [simp]:
  "run_upserts tx (c # cs) = run_upserts (snd (UpsertCountry None tx c)) cs"
  by (simp add: run_upserts_def)

lemma run_upserts_append:
  "run_upserts tx (cs @ ds) = run_upserts (run_upserts tx cs) ds"
  by (simp add: run_upserts_def)

lemma run_upserts_tables:
  "countries tx \<noteq> None \<Longrightarrow>
   countries (run_upserts tx cs) \<noteq> None \<and> metadata (run_upserts tx cs) = metadata tx"
proof (induction cs arbitrary: tx)
  case Nil
  then show ?case by simp
next
  case (Cons c cs)
  from UpsertCountry_ok [OF Cons.prems, of c]
  have "countries (snd (UpsertCountry None tx c)) \<noteq> None"
    and m: "metadata (snd (UpsertCountry None tx c)) = metadata tx"
    by simp_all
  from Cons.IH [OF this(1)] m show ?case
    by simp
qed

lemma length_upserts:
  "length (upserts rates now rc r) =
   length (filter (\<lambda>x. Validate (fst (candidate x rates now r0)) = None) rc)"
proof (induction rc arbitrary: r)
  case Nil
  then show ?case by simp
next
  case (Cons x rc)
  have v: "rcName x = [] \<Longrightarrow> Validate (fst (candidate x rates now r0)) \<noteq> None"
    by (simp add: Validate_def candidate_def Let_def split: prod.splits)
  have i: "Validate (fst (candidate x rates now r)) = Validate (fst (candidate x rates now r0))"
    by (rule Validate_candidate_indep)
  show ?case
    using Cons.IH v i
    by (cases "candidate x rates now r") (auto split: option.splits)
qed

lemma merge_loop_ok:
  "countries tx \<noteq> None \<Longrightarrow>
   \<forall>j < length (upserts rates now rc r). uerr (p + j) = None \<Longrightarrow>
   \<exists>r'. merge_loop uerr rates now rc tx r p =
          (None, run_upserts tx (upserts rates now rc r), r', p + length (upserts rates now rc r))"
proof (induction rc arbitrary: tx r p)
  case Nil
  then show ?case by simp
next
  case (Cons x rc)
  show ?case
  proof (cases "rcName x = []")
    case True
    with Cons show ?thesis by simp
  next
    case False
    obtain c r1 where c: "candidate x rates now r = (c, r1)"
      by (cases "candidate x rates now r")
    show ?thesis
    proof (cases "Validate c")
      case (Some verr)
      with False c Cons show ?thesis by simp
    next
      case None
      have u: "upserts rates now (x # rc) r = c # upserts rates now rc r1"
        using False c None by simp
      from Cons.prems(2) u have f0: "uerr p = None"
        by auto
      from Cons.prems(2) u
      have frest: "\<forall>j < length (upserts rates now rc r1). uerr (p + 1 + j) = None"
        by auto
      obtain tx' where tx': "UpsertCountry None tx c = (None, tx')" "countries tx' \<noteq> None"
        using UpsertCountry_ok [OF Cons.prems(1), of c]
        by (cases "UpsertCountry None tx c") auto
      from Cons.IH [OF tx'(2) frest]
      obtain r' where "merge_loop uerr rates now rc tx' r1 (p + 1) =
          (None, run_upserts tx' (upserts rates now rc r1), r',
           p + 1 + length (upserts rates now rc r1))"
        by blast
      then show ?thesis
        using False c None u f0 tx' by simp
    qed
  qed
qed

lemma merge_loop_fault:
  "countries tx \<noteq> None \<Longrightarrow>
   k < length (upserts rates now rc r) \<Longrightarrow>
   uerr (p + k) = Some msg \<Longrightarrow>
   \<forall>j < k. uerr (p + j) = None \<Longrightarrow>
   \<exists>r'. merge_loop uerr rates now rc tx r p =
          (Some (DriverError msg), run_upserts tx (take k (upserts rates now rc r)), r', p + k)"
proof (induction rc arbitrary: tx r p k)
  case Nil
  then show ?case by simp
next
  case (Cons x rc)
  show ?case
  proof (cases "rcName x = []")
    case True
    with Cons show ?thesis by simp
  next
    case False
    obtain c r1 where c: "candidate x rates now r = (c, r1)"
      by (cases "candidate x rates now r")
    show ?thesis
    proof (cases "Validate c")
      case (Some verr)
      with False c Cons show ?thesis by simp
    next
      case None
      have u: "upserts rates now (x # rc) r = c # upserts rates now rc r1"
        using False c None by simp
      show ?thesis
      proof (cases k)
        case 0
        with Cons.prems(3) have "uerr p = Some msg" by simp
        then show ?thesis
          using False c None u 0 by (simp add: UpsertCountry_fault)
      next
        case (Suc k')
        from Cons.prems(4) Suc have f0: "uerr p = None"
          by auto
        obtain tx' where tx': "UpsertCountry None tx c = (None, tx')" "countries tx' \<noteq> None"
          using UpsertCountry_ok [OF Cons.prems(1), of c]
          by (cases "UpsertCountry None tx c") auto
        have k': "k' < length (upserts rates now rc r1)"
          using Cons.prems(2) u Suc by simp
        have fk: "uerr (p + 1 + k') = Some msg"
          using Cons.prems(3) Suc by simp
        have fr: "\<forall>j < k'. uerr (p + 1 + j) = None"
          using Cons.prems(4) Suc by auto
        from Cons.IH [OF tx'(2) k' fk fr]
        obtain r' where "merge_loop uerr rates now rc tx' r1 (p + 1) =
            (Some (DriverError msg), run_upserts tx' (take k' (upserts rates now rc r1)), r',
             p + 1 + k')"
          by blast
        then show ?thesis
          using False c None u f0 tx' Suc by simp
      qed
    qed
  qed
qed

lemma merge_loop_success:
  "merge_loop uerr rates now rc tx r p = (None, tx', r', p') \<Longrightarrow> countries tx \<noteq> None \<Longrightarrow>
   tx' = run_upserts tx (upserts rates now rc r) \<and> p' = p + length (upserts rates now rc r)"
proof (induction rc arbitrary: tx r p)
  case Nil
  then show ?case by simp
next
  case (Cons x rc)
  show ?case
  proof (cases "rcName x = []")
    case True
    with Cons.prems(1) have "merge_loop uerr rates now rc tx r p = (None, tx', r', p')"
      by simp
    from Cons.IH [OF this Cons.prems(2)] True show ?thesis
      by simp
  next
    case n: False
    obtain c r1 where c: "candidate x rates now r = (c, r1)"
      by (cases "candidate x rates now r")
    show ?thesis
    proof (cases "Validate c")
      case (Some verr)
      with n c Cons.prems(1) have "merge_loop uerr rates now rc tx r1 p = (None, tx', r', p')"
        by simp
      from Cons.IH [OF this Cons.prems(2)] n c Some show ?thesis
        by simp
    next
      case None
      have f0: "uerr p = None"
      proof (cases "uerr p")
        case (Some msg)
        with Cons.prems(1) n c None show ?thesis
          by (simp add: UpsertCountry_fault)
      qed simp
      obtain tx1 where tx1: "UpsertCountry None tx c = (None, tx1)" "countries tx1 \<noteq> None"
        using UpsertCountry_ok [OF Cons.prems(2), of c]
        by (cases "UpsertCountry None tx c") auto
      from Cons.prems(1) n c None f0 tx1
      have "merge_loop uerr rates now rc tx1 r1 (p + 1) = (None, tx', r', p')"
        by simp
      from Cons.IH [OF this tx1(2)] show ?thesis
        using n c None tx1 by simp
    qed
  qed
qed

subsection \<open>Errors of Refresh\<close>

text \<open>
  Every error that \<^verbatim>\<open>Refresh\<close> returns is the \<^verbatim>\<open>ExternalError\<close> of one of the two sources,
  with the database as it was, or an error of the SQL driver.
\<close>

lemma fetch_cases:
  "fetch api resp = Inl (ExternalError api) \<or> (\<exists>v. resp = Response 200 (Some v) \<and> fetch api resp = Inr v)"
  by (auto simp: fetch_def split: http_result.splits option.splits)

lemma fetch_failed:
  "resp = TransportError \<or> (\<exists>status body. resp = Response status body \<and> (status \<noteq> 200 \<or> body = None)) \<Longrightarrow>
   fetch api resp = Inl (ExternalError api)"
  by (auto simp: fetch_def)

lemma fetch_ok: "fetch api (Response 200 (Some v)) = Inr v"
  by (simp add: fetch_def)

lemma UpsertCountry_error:
  "UpsertCountry f tx c = (Some err, tx') \<Longrightarrow> \<exists>msg. err = DriverError msg"
  by (auto simp: UpsertCountry_def split: option.splits if_splits)

lemma merge_loop_error:
  "merge_loop uerr rates now rc tx r p = (Some err, tx', r', p') \<Longrightarrow> \<exists>msg. err = DriverError msg"
proof (induction rc arbitrary: tx r p)
  case Nil
  then show ?case by simp
next
  case (Cons x rc)
  show ?case
  proof (cases "rcName x = []")
    case True
    with Cons show ?thesis by simp
  next
    case False
    obtain c r1 where c: "candidate x rates now r = (c, r1)"
      by (cases "candidate x rates now r")
    show ?thesis
    proof (cases "Validate c")
      case (Some verr)
      with False c Cons show ?thesis by simp
    next
      case None
      obtain e1 tx1 where u: "UpsertCountry (uerr p) tx c = (e1, tx1)"
        by (cases "UpsertCountry (uerr p) tx c")
      show ?thesis
      proof (cases e1)
        case None
        with Cons False c \<open>Validate c = None\<close> u show ?thesis by simp
      next
        case (Some e)
        with Cons.prems False c \<open>Validate c = None\<close> u have "err = e" by simp
        with Some u UpsertCountry_error show ?thesis by blast
      qed
    qed
  qed
qed

lemma EnsureTables_error:
  "EnsureTables f db = (Some err, db') \<Longrightarrow> \<exists>msg. err = DriverError msg"
  by (auto simp: EnsureTables_def Let_def split: option.splits)

lemma EnsureTables_ok:
  "EnsureTables f db = (None, db') \<Longrightarrow>
   countries db' = (case countries db of None \<Rightarrow> Some [] | Some rows \<Rightarrow> Some rows) \<and>
   metadata db' = (case metadata db of None \<Rightarrow> Some Map.empty | Some m \<Rightarrow> Some m) \<and>
   next_id db' = next_id db"
  by (auto simp: EnsureTables_def Let_def split: option.splits)

lemma SaveLastRefreshed_error:
  "SaveLastRefreshed f tx t = (Some err, tx') \<Longrightarrow> \<exists>msg. err = DriverError msg"
  by (auto simp: SaveLastRefreshed_def split: option.splits)

lemma Commit_error:
  "Commit f db tx = (Some err, db') \<Longrightarrow> \<exists>msg. err = DriverError msg"
  by (auto simp: Commit_def split: option.splits)

lemma in_transaction_error:
  "in_transaction f rc rr now r db = (Inl err, db') \<Longrightarrow>
   (\<exists>msg. err = DriverError msg) \<and> countries db' = countries db \<and> metadata db' = metadata db"
  unfolding in_transaction_def
  by (auto simp: Rollback_def Commit_def split: option.splits prod.splits
           dest: merge_loop_error SaveLastRefreshed_error)

lemma Refresh_error:
  "Refresh e db = (Inl err, db') \<Longrightarrow>
   (err = ExternalError ''restcountries'' \<and> db' = db) \<or>
   (err = ExternalError ''exchangerates'' \<and> db' = db) \<or>
   (\<exists>msg. err = DriverError msg)"
  using fetch_cases [of "''restcountries''" "countries_response e"]
        fetch_cases [of "''exchangerates''" "rates_response e"]
  unfolding Refresh_def
  by (auto split: sum.splits prod.splits option.splits
           dest: EnsureTables_error in_transaction_error)


text \<open>
  Claim C2. If the fetch of the countries fails (transport error, a status other than 200,
  or a body that does not decode), \<^verbatim>\<open>Refresh\<close> returns the \<^verbatim>\<open>ExternalError\<close> of
  \<open>restcountries\<close>; if that fetch succeeds and the fetch of the rates fails, the one of
  \<open>exchangerates\<close>. In both cases the database returned is the database given, whatever
  the faults of the SQL server would have been: no table is created, no row and no metadata
  changes. And whenever \<^verbatim>\<open>Refresh\<close> returns an \<^verbatim>\<open>ExternalError\<close> the database is unchanged
  and the handler answers 503.
\<close>

theorem fetch_failure_leaves_store_untouched:
  "((countries_response e = TransportError \<or>
     (\<exists>status body. countries_response e = Response status body \<and> (status \<noteq> 200 \<or> body = None))) \<longrightarrow>
      Refresh e db = (Inl (ExternalError ''restcountries''), db)) \<and>
   ((\<exists>rc. countries_response e = Response 200 (Some rc)) \<and>
    (rates_response e = TransportError \<or>
     (\<exists>status body. rates_response e = Response status body \<and> (status \<noteq> 200 \<or> body = None))) \<longrightarrow>
      Refresh e db = (Inl (ExternalError ''exchangerates''), db)) \<and>
   (\<forall>api. fst (Refresh e db) = Inl (ExternalError api) \<longrightarrow>
      snd (Refresh e db) = db \<and> refresh_status (fst (Refresh e db)) = 503)"
proof (intro conjI impI allI)
  assume "countries_response e = TransportError \<or>
     (\<exists>status body. countries_response e = Response status body \<and> (status \<noteq> 200 \<or> body = None))"
  then have "fetch ''restcountries'' (countries_response e) = Inl (ExternalError ''restcountries'')"
    by (rule fetch_failed)
  then show "Refresh e db = (Inl (ExternalError ''restcountries''), db)"
    by (simp add: Refresh_def)
next
  assume h: "(\<exists>rc. countries_response e = Response 200 (Some rc)) \<and>
    (rates_response e = TransportError \<or>
     (\<exists>status body. rates_response e = Response status body \<and> (status \<noteq> 200 \<or> body = None)))"
  then obtain rc where "fetch ''restcountries'' (countries_response e) = Inr rc"
    by (auto simp: fetch_ok)
  moreover from h have "fetch ''exchangerates'' (rates_response e) = Inl (ExternalError ''exchangerates'')"
    by (intro fetch_failed) simp
  ultimately show "Refresh e db = (Inl (ExternalError ''exchangerates''), db)"
    by (simp add: Refresh_def)
next
  fix api
  assume a: "fst (Refresh e db) = Inl (ExternalError api)"
  then have "Refresh e db = (Inl (ExternalError api), snd (Refresh e db))"
    by (metis prod.collapse)
  from Refresh_error [OF this] show "snd (Refresh e db) = db"
    by auto
next
  fix api
  assume a: "fst (Refresh e db) = Inl (ExternalError api)"
  then show "refresh_status (fst (Refresh e db)) = 503"
    by (simp add: refresh_status_def)
qed


theorem fetch_failure_leaves_store_untouched_witness:
  "Refresh ((sample_env [] Map.empty 0 no_faults)\<lparr>countries_response := Response 500 None\<rparr>)
           empty_store = (Inl (ExternalError ''restcountries''), empty_store) \<and>
   Refresh ((sample_env [sample_country ''Wakanda'' 5 [''USD'']] [''USD'' \<mapsto> 2] 0 no_faults)
              \<lparr>rates_response := TransportError\<rparr>)
           empty_store = (Inl (ExternalError ''exchangerates''), empty_store) \<and>
   countries empty_store = None \<and> metadata empty_store = None"
  using
    fetch_failure_leaves_store_untouched
      [of "(sample_env [] Map.empty 0 no_faults)\<lparr>countries_response := Response 500 None\<rparr>"
          empty_store]
    fetch_failure_leaves_store_untouched
      [of "(sample_env [sample_country ''Wakanda'' 5 [''USD'']] [''USD'' \<mapsto> 2] 0 no_faults)
              \<lparr>rates_response := TransportError\<rparr>"
          empty_store]
  by (simp add: sample_env_def empty_store_def)


subsection \<open>Skipped records and failed upserts\<close>

text \<open>The definitions that a run on concrete data unfolds.\<close>

lemmas run_defs =
  Refresh_def fetch_def sample_env_def sample_country_def no_faults_def
  empty_store_def EnsureTables_def in_transaction_def candidate_def derive_def Intn_def
  estimate_def Validate_def UpsertCountry_def insert_row_def on_duplicate_key_update_def
  sql_eq_def LOWER_def lower_char_def SaveLastRefreshed_def Commit_def Rollback_def

lemma Refresh_fetched:
  "countries_response e = Response 200 (Some rcs) \<Longrightarrow>
   rates_response e = Response 200 (Some rr) \<Longrightarrow>
   Refresh e db =
     (case EnsureTables (db_faults e) db of
        (Some err, db1) \<Rightarrow> (Inl err, db1)
      | (None, db1) \<Rightarrow>
          in_transaction (db_faults e) rcs rr (clock_now e) (seeded_rand e) db1)"
  by (simp add: Refresh_def fetch_ok)

lemma EnsureTables_no_fault_eq:
  "create_countries_err f = None \<Longrightarrow> create_metadata_err f = None \<Longrightarrow>
   \<exists>db1. EnsureTables f db = (None, db1) \<and>
     countries db1 = (case countries db of None \<Rightarrow> Some [] | Some rows \<Rightarrow> Some rows) \<and>
     metadata db1 = (case metadata db of None \<Rightarrow> Some Map.empty | Some m \<Rightarrow> Some m)"
  by (auto simp: EnsureTables_def Let_def split: option.splits)

lemma Refresh_never_validation_error:
  "fst (Refresh e db) \<noteq> Inl (ValidationError errors)"
proof
  assume "fst (Refresh e db) = Inl (ValidationError errors)"
  then have "Refresh e db = (Inl (ValidationError errors), snd (Refresh e db))"
    by (metis prod.collapse)
  from Refresh_error [OF this] show False
    by simp
qed

lemma merge_loop_skip:
  "rcName x \<noteq> [] \<Longrightarrow> Validate (fst (candidate x rates now r)) \<noteq> None \<Longrightarrow>
   merge_loop uerr rates now (x # rc) tx r p =
     merge_loop uerr rates now rc tx (snd (candidate x rates now r)) p"
  by (cases "candidate x rates now r") auto


text \<open>
  Claim C3. In the loop, a record with a name whose candidate fails validation is skipped:
  the loop goes on with the rest of the list, with the same transaction (nothing is rolled
  back) and the same count. No call of \<^verbatim>\<open>Refresh\<close> returns a \<^verbatim>\<open>ValidationError\<close>, and the
  handler never answers 400. If both fetches succeed, the tables can be created and the
  transaction begun, and the upsert number \<open>k\<close> of the run (one of the records that pass
  validation) is the first that the server refuses, with message \<open>msg\<close>, then \<^verbatim>\<open>Refresh\<close>
  returns that driver error, the handler answers 500, and the rows and the metadata are
  those from before the run (empty tables where \<^verbatim>\<open>EnsureTables\<close> just created them): the
  \<open>k\<close> upserts already done are gone.
\<close>

theorem validation_skips_store_error_aborts:
  "(rcName x \<noteq> [] \<and> Validate (fst (candidate x rates now r)) \<noteq> None \<longrightarrow>
      merge_loop uerr rates now (x # rc) tx r p =
        merge_loop uerr rates now rc tx (snd (candidate x rates now r)) p) \<and>
   (\<forall>errors. fst (Refresh e db) \<noteq> Inl (ValidationError errors)) \<and>
   refresh_status (fst (Refresh e db)) \<noteq> 400 \<and>
   (\<forall>rcs rr k msg.
      countries_response e = Response 200 (Some rcs) \<and>
      rates_response e = Response 200 (Some rr) \<and>
      create_countries_err (db_faults e) = None \<and>
      create_metadata_err (db_faults e) = None \<and>
      begin_err (db_faults e) = None \<and>
      k < length (filter (\<lambda>y. Validate (fst (candidate y (Rates rr) (clock_now e) r0)) = None) rcs) \<and>
      upsert_err (db_faults e) k = Some msg \<and>
      (\<forall>j < k. upsert_err (db_faults e) j = None) \<longrightarrow>
      fst (Refresh e db) = Inl (DriverError msg) \<and>
      refresh_status (fst (Refresh e db)) = 500 \<and>
      countries (snd (Refresh e db)) =
        (case countries db of None \<Rightarrow> Some [] | Some rows \<Rightarrow> Some rows) \<and>
      metadata (snd (Refresh e db)) =
        (case metadata db of None \<Rightarrow> Some Map.empty | Some m \<Rightarrow> Some m))"
proof (intro conjI allI impI)
  assume "rcName x \<noteq> [] \<and> Validate (fst (candidate x rates now r)) \<noteq> None"
  then show "merge_loop uerr rates now (x # rc) tx r p =
        merge_loop uerr rates now rc tx (snd (candidate x rates now r)) p"
    using merge_loop_skip by blast
next
  fix errors
  show "fst (Refresh e db) \<noteq> Inl (ValidationError errors)"
    by (rule Refresh_never_validation_error)
next
  show "refresh_status (fst (Refresh e db)) \<noteq> 400"
    using Refresh_never_validation_error [of e db]
    by (auto simp: refresh_status_def split: sum.splits error.splits)
next
  fix rcs rr k msg
  assume h: "countries_response e = Response 200 (Some rcs) \<and>
      rates_response e = Response 200 (Some rr) \<and>
      create_countries_err (db_faults e) = None \<and>
      create_metadata_err (db_faults e) = None \<and>
      begin_err (db_faults e) = None \<and>
      k < length (filter (\<lambda>y. Validate (fst (candidate y (Rates rr) (clock_now e) r0)) = None) rcs) \<and>
      upsert_err (db_faults e) k = Some msg \<and>
      (\<forall>j < k. upsert_err (db_faults e) j = None)"
  define f where "f = db_faults e"
  from h obtain db1 where db1: "EnsureTables f db = (None, db1)"
      "countries db1 = (case countries db of None \<Rightarrow> Some [] | Some rows \<Rightarrow> Some rows)"
      "metadata db1 = (case metadata db of None \<Rightarrow> Some Map.empty | Some m \<Rightarrow> Some m)"
    using EnsureTables_no_fault_eq [of f db] unfolding f_def by blast
  have ne: "countries db1 \<noteq> None"
    using db1(2) by (simp split: option.splits)
  have k: "k < length (upserts (Rates rr) (clock_now e) rcs (seeded_rand e))"
    using h by (simp add: length_upserts [where ?r0.0 = r0])
  have "upsert_err f (0 + k) = Some msg" "\<forall>j < k. upsert_err f (0 + j) = None"
    using h by (simp_all add: f_def)
  from merge_loop_fault [OF ne k this]
  obtain r' where m: "merge_loop (upsert_err f) (Rates rr) (clock_now e) rcs db1 (seeded_rand e) 0 =
      (Some (DriverError msg),
       run_upserts db1 (take k (upserts (Rates rr) (clock_now e) rcs (seeded_rand e))), r', k)"
    by auto
  have "Refresh e db = in_transaction f rcs rr (clock_now e) (seeded_rand e) db1"
    using h db1(1) by (simp add: Refresh_fetched f_def)
  also have "\<dots> = (Inl (DriverError msg),
      Rollback db1 (run_upserts db1 (take k (upserts (Rates rr) (clock_now e) rcs (seeded_rand e)))))"
    using h m by (simp add: in_transaction_def f_def)
  finally have R: "Refresh e db = (Inl (DriverError msg),
      Rollback db1 (run_upserts db1 (take k (upserts (Rates rr) (clock_now e) rcs (seeded_rand e)))))" .
  show "fst (Refresh e db) = Inl (DriverError msg)"
    by (simp add: R)
  show "refresh_status (fst (Refresh e db)) = 500"
    by (simp add: R refresh_status_def)
  show "countries (snd (Refresh e db)) =
        (case countries db of None \<Rightarrow> Some [] | Some rows \<Rightarrow> Some rows)"
    by (simp add: R Rollback_def db1(2))
  show "metadata (snd (Refresh e db)) =
        (case metadata db of None \<Rightarrow> Some Map.empty | Some m \<Rightarrow> Some m)"
    by (simp add: R Rollback_def db1(3))
qed


theorem validation_skips_store_error_aborts_witness:
  "fst (Refresh (sample_env [sample_country ''Wakanda'' 5 [''USD''],
                             sample_country ''Nowhere'' 0 [''USD''],
                             sample_country ''Genovia'' 7 [''EUR'']]
                            [''USD'' \<mapsto> 2, ''EUR'' \<mapsto> 4] 0
                            (no_faults\<lparr>upsert_err := (\<lambda>k. if k = 1 then Some ''deadlock'' else None)\<rparr>))
                empty_store) = Inl (DriverError ''deadlock'') \<and>
   countries (snd (Refresh (sample_env [sample_country ''Wakanda'' 5 [''USD''],
                             sample_country ''Nowhere'' 0 [''USD''],
                             sample_country ''Genovia'' 7 [''EUR'']]
                            [''USD'' \<mapsto> 2, ''EUR'' \<mapsto> 4] 0
                            (no_faults\<lparr>upsert_err := (\<lambda>k. if k = 1 then Some ''deadlock'' else None)\<rparr>))
                empty_store)) = Some [] \<and>
   metadata (snd (Refresh (sample_env [sample_country ''Wakanda'' 5 [''USD''],
                             sample_country ''Nowhere'' 0 [''USD''],
                             sample_country ''Genovia'' 7 [''EUR'']]
                            [''USD'' \<mapsto> 2, ''EUR'' \<mapsto> 4] 0
                            (no_faults\<lparr>upsert_err := (\<lambda>k. if k = 1 then Some ''deadlock'' else None)\<rparr>))
                empty_store)) = Some Map.empty \<and>
   merge_loop (\<lambda>k. None) [''USD'' \<mapsto> 2, ''EUR'' \<mapsto> 4] 0
              [sample_country ''Nowhere'' 0 [''USD''], sample_country ''Genovia'' 7 [''EUR'']]
              \<lparr> countries = Some [], metadata = Some Map.empty, next_id = 1 \<rparr> (sconst 500) 1 =
     merge_loop (\<lambda>k. None) [''USD'' \<mapsto> 2, ''EUR'' \<mapsto> 4] 0
              [sample_country ''Genovia'' 7 [''EUR'']]
              \<lparr> countries = Some [], metadata = Some Map.empty, next_id = 1 \<rparr> (sconst 500) 1"
proof -
  let ?rcs = "[sample_country ''Wakanda'' 5 [''USD''], sample_country ''Nowhere'' 0 [''USD''],
               sample_country ''Genovia'' 7 [''EUR'']]"
  let ?rates = "[''USD'' \<mapsto> 2::real, ''EUR'' \<mapsto> 4]"
  let ?rr = "\<lparr> Result = ''success'', Rates = ?rates \<rparr>"
  let ?f = "no_faults\<lparr>upsert_err := (\<lambda>k. if k = 1 then Some ''deadlock'' else None)\<rparr>"
  let ?e = "sample_env ?rcs ?rates 0 ?f"
  note T = validation_skips_store_error_aborts
    [where e = ?e and db = empty_store and ?r0.0 = "sconst 0"
       and x = "sample_country ''Nowhere'' 0 [''USD'']" and rates = ?rates and now = 0
       and r = "sconst 500" and uerr = "\<lambda>k. None"
       and rc = "[sample_country ''Genovia'' 7 [''EUR'']]"
       and tx = "\<lparr> countries = Some [], metadata = Some Map.empty, next_id = 1 \<rparr>" and p = 1]
  have v: "rcName (sample_country ''Nowhere'' 0 [''USD'']) \<noteq> [] \<and>
           Validate (fst (candidate (sample_country ''Nowhere'' 0 [''USD'']) ?rates 0 (sconst 500))) \<noteq> None"
    by (simp add: sample_country_def candidate_def derive_def Intn_def Validate_def)
  have h: "countries_response ?e = Response 200 (Some ?rcs) \<and>
      rates_response ?e = Response 200 (Some ?rr) \<and>
      create_countries_err (db_faults ?e) = None \<and>
      create_metadata_err (db_faults ?e) = None \<and>
      begin_err (db_faults ?e) = None \<and>
      1 < length (filter (\<lambda>y. Validate (fst (candidate y (Rates ?rr) (clock_now ?e) (sconst 0))) = None) ?rcs) \<and>
      upsert_err (db_faults ?e) 1 = Some ''deadlock'' \<and>
      (\<forall>j < 1. upsert_err (db_faults ?e) j = None)"
    by (simp add: sample_env_def no_faults_def sample_country_def candidate_def derive_def
        Intn_def Validate_def)
  from T v have skip: "merge_loop (\<lambda>k. None) ?rates 0
              [sample_country ''Nowhere'' 0 [''USD''], sample_country ''Genovia'' 7 [''EUR'']]
              \<lparr> countries = Some [], metadata = Some Map.empty, next_id = 1 \<rparr> (sconst 500) 1 =
     merge_loop (\<lambda>k. None) ?rates 0 [sample_country ''Genovia'' 7 [''EUR'']]
              \<lparr> countries = Some [], metadata = Some Map.empty, next_id = 1 \<rparr>
              (snd (candidate (sample_country ''Nowhere'' 0 [''USD'']) ?rates 0 (sconst 500))) 1"
    by blast
  have s: "snd (candidate (sample_country ''Nowhere'' 0 [''USD'']) ?rates 0 (sconst 500)) = sconst 500"
    by (simp add: sample_country_def candidate_def derive_def Intn_def)
  from T have "\<forall>rcs rr k msg.
      countries_response ?e = Response 200 (Some rcs) \<and>
      rates_response ?e = Response 200 (Some rr) \<and>
      create_countries_err (db_faults ?e) = None \<and>
      create_metadata_err (db_faults ?e) = None \<and>
      begin_err (db_faults ?e) = None \<and>
      k < length (filter (\<lambda>y. Validate (fst (candidate y (Rates rr) (clock_now ?e) (sconst 0))) = None) rcs) \<and>
      upsert_err (db_faults ?e) k = Some msg \<and>
      (\<forall>j < k. upsert_err (db_faults ?e) j = None) \<longrightarrow>
      fst (Refresh ?e empty_store) = Inl (DriverError msg) \<and>
      refresh_status (fst (Refresh ?e empty_store)) = 500 \<and>
      countries (snd (Refresh ?e empty_store)) =
        (case countries empty_store of None \<Rightarrow> Some [] | Some rows \<Rightarrow> Some rows) \<and>
      metadata (snd (Refresh ?e empty_store)) =
        (case metadata empty_store of None \<Rightarrow> Some Map.empty | Some m \<Rightarrow> Some m)"
    by blast
  from this [rule_format, OF h] skip s show ?thesis
    by (simp add: empty_store_def)
qed


subsection \<open>A successful run\<close>

lemma SaveLastRefreshed_ok:
  "SaveLastRefreshed f tx t = (None, tx') \<Longrightarrow>
   countries tx' = countries tx \<and> next_id tx' = next_id tx \<and>
   (\<exists>m. metadata tx = Some m \<and>
        metadata tx' = Some (m(''last_refreshed_at'' \<mapsto>
                         \<lparr> meta_value = RFC3339 (t div 1000000000), updated_at = t \<rparr>)))"
  by (auto simp: SaveLastRefreshed_def split: option.splits)

lemma Commit_ok: "Commit f db tx = (None, db') \<Longrightarrow> db' = tx"
  by (auto simp: Commit_def split: option.splits)

lemma in_transaction_success:
  assumes "in_transaction f rcs rr now r db1 = (Inr res, db')" and "countries db1 \<noteq> None"
  shows "res = \<lparr> Total = length (upserts (Rates rr) now rcs r), LastRefreshed = now \<rparr> \<and>
         countries db' = countries (run_upserts db1 (upserts (Rates rr) now rcs r)) \<and>
         (\<exists>m. metadata db1 = Some m \<and>
              metadata db' = Some (m(''last_refreshed_at'' \<mapsto>
                               \<lparr> meta_value = RFC3339 (now div 1000000000), updated_at = now \<rparr>)))"
proof -
  from assms(1) have b: "begin_err f = None"
    by (auto simp: in_transaction_def split: option.splits)
  obtain e1 tx r' p where m: "merge_loop (upsert_err f) (Rates rr) now rcs db1 r 0 = (e1, tx, r', p)"
    by (cases "merge_loop (upsert_err f) (Rates rr) now rcs db1 r 0")
  from assms(1) b m have e1: "e1 = None"
    by (cases e1) (auto simp: in_transaction_def)
  obtain e2 tx' where s: "SaveLastRefreshed (save_err f) tx now = (e2, tx')"
    by (cases "SaveLastRefreshed (save_err f) tx now")
  from assms(1) b m e1 s have e2: "e2 = None"
    by (cases e2) (auto simp: in_transaction_def)
  obtain e3 db2 where c: "Commit (commit_err f) db1 tx' = (e3, db2)"
    by (cases "Commit (commit_err f) db1 tx'")
  from assms(1) b m e1 s e2 c have e3: "e3 = None"
    by (cases e3) (auto simp: in_transaction_def)
  from assms(1) b m e1 s e2 c e3
  have r: "res = \<lparr> Total = p, LastRefreshed = now \<rparr>" "db' = db2"
    by (auto simp: in_transaction_def)
  from merge_loop_success [OF m [unfolded e1] assms(2)]
  have t: "tx = run_upserts db1 (upserts (Rates rr) now rcs r)"
      "p = length (upserts (Rates rr) now rcs r)"
    by simp_all
  from Commit_ok [OF c [unfolded e3]] have d: "db2 = tx'" .
  from SaveLastRefreshed_ok [OF s [unfolded e2]] obtain m where
    sv: "countries tx' = countries tx" "metadata tx = Some m"
      "metadata tx' = Some (m(''last_refreshed_at'' \<mapsto>
                         \<lparr> meta_value = RFC3339 (now div 1000000000), updated_at = now \<rparr>))"
    by blast
  have md: "metadata db1 = Some m"
    using run_upserts_tables [OF assms(2), of "upserts (Rates rr) now rcs r"] t(1) sv(2) by simp
  show ?thesis
    using r t d sv md by (intro conjI exI [of _ m]) simp_all
qed

lemma Refresh_success:
  assumes "countries_response e = Response 200 (Some rcs)"
    and "rates_response e = Response 200 (Some rr)"
    and "Refresh e db = (Inr res, db')"
  shows "\<exists>db1. EnsureTables (db_faults e) db = (None, db1) \<and> countries db1 \<noteq> None \<and>
           in_transaction (db_faults e) rcs rr (clock_now e) (seeded_rand e) db1 = (Inr res, db')"
proof -
  obtain e1 db1 where en: "EnsureTables (db_faults e) db = (e1, db1)"
    by (cases "EnsureTables (db_faults e) db")
  from assms en have e1: "e1 = None"
    by (cases e1) (auto simp: Refresh_fetched)
  from EnsureTables_ok [OF en [unfolded e1]] have "countries db1 \<noteq> None"
    by (simp split: option.splits)
  with assms en e1 show ?thesis
    by (simp add: Refresh_fetched)
qed


text \<open>A run on three fetched records, the second of which has population 0.\<close>

lemma sample_run_ok:
  "Refresh (sample_env [sample_country ''Wakanda'' 5 [''USD''],
                        sample_country ''Nowhere'' 0 [''USD''],
                        sample_country ''Genovia'' 7 [''EUR'']]
                       [''USD'' \<mapsto> 2, ''EUR'' \<mapsto> 4] 1700000000123456789 no_faults) empty_store =
     (Inr \<lparr> Total = 2, LastRefreshed = 1700000000123456789 \<rparr>,
      \<lparr> countries = Some
          [\<lparr> ID = 1, Name = ''Wakanda'', Capital = None, Region = None, Population = 5,
             CurrencyCode = Some ''USD'', ExchangeRate = Some 2, EstimatedGDP = Some 3750,
             FlagURL = None, LastRefreshedAt = Some 1700000000123456789 \<rparr>,
           \<lparr> ID = 2, Name = ''Genovia'', Capital = None, Region = None, Population = 7,
             CurrencyCode = Some ''EUR'', ExchangeRate = Some 4, EstimatedGDP = Some 2625,
             FlagURL = None, LastRefreshedAt = Some 1700000000123456789 \<rparr>],
        metadata = Some [''last_refreshed_at'' \<mapsto>
                          \<lparr> meta_value = RFC3339 1700000000, updated_at = 1700000000123456789 \<rparr>],
        next_id = 3 \<rparr>)"
  by (simp add: run_defs)


text \<open>
  Claim C7. When \<^verbatim>\<open>Refresh\<close> succeeds on the fetched records \<open>rcs\<close> and rates \<open>rr\<close>, the
  reported \<^verbatim>\<open>Total\<close> is the number of fetched records whose candidate passes validation
  (whatever generator \<open>r0\<close> builds the candidates: validation does not look at it), which
  is the number of upserts of the run, and the rows left are those of the bootstrapped
  database after these upserts. The reported \<^verbatim>\<open>LastRefreshed\<close> is the time of the run that
  the committed transaction wrote under \<open>last_refreshed_at\<close> in the metadata.
\<close>

theorem reported_count_and_timestamp:
  assumes "countries_response e = Response 200 (Some rcs)"
    and "rates_response e = Response 200 (Some rr)"
    and "Refresh e db = (Inr res, db')"
  shows "Total res =
           length (filter (\<lambda>y. Validate (fst (candidate y (Rates rr) (clock_now e) r0)) = None) rcs) \<and>
         Total res = length (upserts (Rates rr) (clock_now e) rcs (seeded_rand e)) \<and>
         countries db' =
           countries (run_upserts (snd (EnsureTables (db_faults e) db))
                        (upserts (Rates rr) (clock_now e) rcs (seeded_rand e))) \<and>
         LastRefreshed res = clock_now e \<and>
         (\<exists>m. metadata db' = Some m \<and>
              m ''last_refreshed_at'' =
                Some \<lparr> meta_value = RFC3339 (clock_now e div 1000000000),
                       updated_at = clock_now e \<rparr>)"
proof -
  from Refresh_success [OF assms] obtain db1 where
    d: "EnsureTables (db_faults e) db = (None, db1)" "countries db1 \<noteq> None"
      "in_transaction (db_faults e) rcs rr (clock_now e) (seeded_rand e) db1 = (Inr res, db')"
    by blast
  from in_transaction_success [OF d(3) d(2)] d(1) show ?thesis
    by (auto simp: length_upserts [where ?r0.0 = r0])
qed


theorem reported_count_and_timestamp_witness:
  "fst (Refresh (sample_env [sample_country ''Wakanda'' 5 [''USD''],
                             sample_country ''Nowhere'' 0 [''USD''],
                             sample_country ''Genovia'' 7 [''EUR'']]
                            [''USD'' \<mapsto> 2, ''EUR'' \<mapsto> 4] 1700000000123456789 no_faults)
                empty_store) = Inr \<lparr> Total = 2, LastRefreshed = 1700000000123456789 \<rparr> \<and>
   length (filter (\<lambda>y. Validate (fst (candidate y [''USD'' \<mapsto> 2, ''EUR'' \<mapsto> 4]
                                         1700000000123456789 (sconst 0))) = None)
             [sample_country ''Wakanda'' 5 [''USD''], sample_country ''Nowhere'' 0 [''USD''],
              sample_country ''Genovia'' 7 [''EUR'']]) = 2 \<and>
   (\<exists>m. metadata (snd (Refresh (sample_env [sample_country ''Wakanda'' 5 [''USD''],
                             sample_country ''Nowhere'' 0 [''USD''],
                             sample_country ''Genovia'' 7 [''EUR'']]
                            [''USD'' \<mapsto> 2, ''EUR'' \<mapsto> 4] 1700000000123456789 no_faults)
                empty_store)) = Some m \<and>
        m ''last_refreshed_at'' =
          Some \<lparr> meta_value = RFC3339 1700000000, updated_at = 1700000000123456789 \<rparr>)"
proof -
  let ?rcs = "[sample_country ''Wakanda'' 5 [''USD''], sample_country ''Nowhere'' 0 [''USD''],
               sample_country ''Genovia'' 7 [''EUR'']]"
  let ?rates = "[''USD'' \<mapsto> 2::real, ''EUR'' \<mapsto> 4]"
  let ?e = "sample_env ?rcs ?rates 1700000000123456789 no_faults"
  have h1: "countries_response ?e = Response 200 (Some ?rcs)"
    by (simp add: sample_env_def)
  have h2: "rates_response ?e = Response 200 (Some \<lparr> Result = ''success'', Rates = ?rates \<rparr>)"
    by (simp add: sample_env_def)
  from reported_count_and_timestamp [OF h1 h2 sample_run_ok, of "sconst 0"] sample_run_ok
  show ?thesis
    by (simp add: sample_env_def)
qed


subsection \<open>What a run can store\<close>

lemma Validate_None_iff:
  "Validate c = None \<longleftrightarrow>
     Name c \<noteq> [] \<and> 0 < Population c \<and> (\<exists>code. CurrencyCode c = Some code \<and> code \<noteq> [])"
  by (cases "CurrencyCode c") (auto simp: Validate_def Let_def)

lemma sql_eq_nonempty: "sql_eq a b \<Longrightarrow> b \<noteq> [] \<Longrightarrow> a \<noteq> []"
  by (auto simp: sql_eq_def LOWER_def)

lemma Validate_insert_row: "Validate c = None \<Longrightarrow> Validate (insert_row i c) = None"
  by (simp add: Validate_None_iff insert_row_def)

lemma Validate_on_duplicate:
  "Validate c = None \<Longrightarrow> sql_eq (Name row) (Name c) \<Longrightarrow>
   Validate (on_duplicate_key_update row c) = None"
  by (auto simp: Validate_None_iff on_duplicate_key_update_def dest: sql_eq_nonempty)

lemma UpsertCountry_rows:
  assumes "countries tx = Some rows" and "Validate c = None"
  shows "\<exists>rows'. countries (snd (UpsertCountry None tx c)) = Some rows' \<and>
           (\<forall>row \<in> set rows'. row \<in> set rows \<or>
              (Validate row = None \<and> LastRefreshedAt row = LastRefreshedAt c))"
proof (cases "\<exists>row \<in> set rows. sql_eq (Name row) (Name c)")
  case True
  then have "countries (snd (UpsertCountry None tx c)) =
      Some (map (\<lambda>row. if sql_eq (Name row) (Name c)
                         then on_duplicate_key_update row c else row) rows)"
    using assms(1) by (simp add: UpsertCountry_def)
  moreover have "\<forall>row \<in> set (map (\<lambda>row. if sql_eq (Name row) (Name c)
                         then on_duplicate_key_update row c else row) rows).
      row \<in> set rows \<or> (Validate row = None \<and> LastRefreshedAt row = LastRefreshedAt c)"
    using assms(2) by (auto simp: Validate_on_duplicate) (simp add: on_duplicate_key_update_def)
  ultimately show ?thesis by blast
next
  case False
  then have "countries (snd (UpsertCountry None tx c)) = Some (rows @ [insert_row (next_id tx) c])"
    using assms(1) by (simp add: UpsertCountry_def)
  moreover have "\<forall>row \<in> set (rows @ [insert_row (next_id tx) c]).
      row \<in> set rows \<or> (Validate row = None \<and> LastRefreshedAt row = LastRefreshedAt c)"
    using assms(2) by (auto simp: Validate_insert_row) (simp add: insert_row_def)
  ultimately show ?thesis by blast
qed

lemma run_upserts_rows:
  assumes "countries tx = Some rows"
    and "\<forall>c \<in> set cs. Validate c = None \<and> LastRefreshedAt c = Some now"
  shows "\<exists>rows'. countries (run_upserts tx cs) = Some rows' \<and>
           (\<forall>row \<in> set rows'. row \<in> set rows \<or>
              (Validate row = None \<and> LastRefreshedAt row = Some now))"
  using assms
proof (induction cs arbitrary: tx rows)
  case Nil
  then show ?case by simp
next
  case (Cons c cs)
  from Cons.prems(2) have c: "Validate c = None" "LastRefreshedAt c = Some now"
    and cs: "\<forall>c \<in> set cs. Validate c = None \<and> LastRefreshedAt c = Some now"
    by simp_all
  from UpsertCountry_rows [OF Cons.prems(1) c(1)] c(2)
  obtain rows1 where r1: "countries (snd (UpsertCountry None tx c)) = Some rows1"
    "\<forall>row \<in> set rows1. row \<in> set rows \<or> (Validate row = None \<and> LastRefreshedAt row = Some now)"
    by auto
  from Cons.IH [OF r1(1) cs]
  obtain rows' where r': "countries (run_upserts (snd (UpsertCountry None tx c)) cs) = Some rows'"
    "\<forall>row \<in> set rows'. row \<in> set rows1 \<or> (Validate row = None \<and> LastRefreshedAt row = Some now)"
    by auto
  from r1(2) r'(2) have "\<forall>row \<in> set rows'. row \<in> set rows \<or>
      (Validate row = None \<and> LastRefreshedAt row = Some now)"
    by blast
  with r'(1) show ?case by simp
qed

lemma upserts_valid:
  "c \<in> set (upserts rates now rcs r) \<Longrightarrow> Validate c = None \<and> LastRefreshedAt c = Some now"
proof (induction rcs arbitrary: r)
  case Nil
  then show ?case by simp
next
  case (Cons x rcs)
  obtain c1 r1 where c1: "candidate x rates now r = (c1, r1)"
    by (cases "candidate x rates now r")
  have l: "LastRefreshedAt c1 = Some now"
    using candidate_fields(6) [of x rates now r] c1 by simp
  from Cons.prems c1 consider "c \<in> set (upserts rates now rcs r)"
    | "c \<in> set (upserts rates now rcs r1)" | "c = c1" "Validate c1 = None"
    by (auto split: if_splits option.splits)
  then show ?case
    using Cons.IH l by cases auto
qed

lemma EnsureTables_tables:
  "EnsureTables f db = (e1, db1) \<Longrightarrow>
   countries db1 = countries db \<or> (countries db = None \<and> countries db1 = Some [])"
  by (auto simp: EnsureTables_def Let_def split: option.splits)

lemma Refresh_failure_tables:
  assumes "Refresh e db = (Inl err, db')"
  shows "countries db' = countries db \<or> (countries db = None \<and> countries db' = Some [])"
proof (cases "fetch ''restcountries'' (countries_response e)")
  case (Inl a)
  with assms show ?thesis
    by (simp add: Refresh_def)
next
  case rcs: (Inr rcs)
  show ?thesis
  proof (cases "fetch ''exchangerates'' (rates_response e)")
    case (Inl a)
    with assms rcs show ?thesis
      by (simp add: Refresh_def)
  next
    case rr: (Inr rr)
    obtain e1 db1 where en: "EnsureTables (db_faults e) db = (e1, db1)"
      by (cases "EnsureTables (db_faults e) db")
    show ?thesis
    proof (cases e1)
      case None
      with assms rcs rr en
      have "in_transaction (db_faults e) rcs rr (clock_now e) (seeded_rand e) db1 = (Inl err, db')"
        by (simp add: Refresh_def)
      from in_transaction_error [OF this] EnsureTables_tables [OF en] show ?thesis
        by auto
    next
      case (Some e2)
      with assms rcs rr en have "db' = db1"
        by (simp add: Refresh_def)
      with EnsureTables_tables [OF en] show ?thesis
        by simp
    qed
  qed
qed

lemma Refresh_rows:
  assumes "countries (snd (Refresh e db)) = Some rows'" and "row \<in> set rows'"
  shows "(\<exists>rows. countries db = Some rows \<and> row \<in> set rows) \<or>
         (Validate row = None \<and> LastRefreshedAt row = Some (clock_now e))"
proof (cases "fst (Refresh e db)")
  case (Inl err)
  then have "Refresh e db = (Inl err, snd (Refresh e db))"
    by (metis prod.collapse)
  from Refresh_failure_tables [OF this] assms show ?thesis
    by auto
next
  case (Inr res)
  then have R: "Refresh e db = (Inr res, snd (Refresh e db))"
    by (metis prod.collapse)
  from R obtain rcs where rcs: "countries_response e = Response 200 (Some rcs)"
    using fetch_cases [of "''restcountries''" "countries_response e"]
    by (auto simp: Refresh_def)
  from R rcs obtain rr where rr: "rates_response e = Response 200 (Some rr)"
    using fetch_cases [of "''exchangerates''" "rates_response e"]
    by (auto simp: Refresh_def fetch_ok)
  from Refresh_success [OF rcs rr R] obtain db1 where
    d: "EnsureTables (db_faults e) db = (None, db1)" "countries db1 \<noteq> None"
      "in_transaction (db_faults e) rcs rr (clock_now e) (seeded_rand e) db1 =
         (Inr res, snd (Refresh e db))"
    by blast
  from d(2) obtain rows1 where rows1: "countries db1 = Some rows1"
    by auto
  have old: "\<exists>rows. countries db = Some rows \<and> row \<in> set rows" if a: "row \<in> set rows1"
  proof -
    from EnsureTables_tables [OF d(1)] rows1 a have "countries db = Some rows1"
      by auto
    with a show ?thesis by blast
  qed
  have "countries (snd (Refresh e db)) =
          countries (run_upserts db1 (upserts (Rates rr) (clock_now e) rcs (seeded_rand e)))"
    using in_transaction_success [OF d(3) d(2)] by simp
  moreover from run_upserts_rows [OF rows1, of "upserts (Rates rr) (clock_now e) rcs (seeded_rand e)"
      "clock_now e"] upserts_valid
  obtain rows2 where
    "countries (run_upserts db1 (upserts (Rates rr) (clock_now e) rcs (seeded_rand e))) = Some rows2"
    "\<forall>row \<in> set rows2. row \<in> set rows1 \<or>
       (Validate row = None \<and> LastRefreshedAt row = Some (clock_now e))"
    by blast
  ultimately show ?thesis
    using assms old by auto
qed


lemma zero_fallback_rejected:
  assumes "rcCurrencies x = [] \<or> hd (rcCurrencies x) = []"
  shows "candidate x rates now r =
           (fst (candidate x rates now r), r) \<and>
         EstimatedGDP (fst (candidate x rates now r)) = Some 0 \<and>
         CurrencyCode (fst (candidate x rates now r)) = None \<and>
         Validate (fst (candidate x rates now r)) \<noteq> None"
proof -
  from derive_no_currency [OF assms] have d: "derive x rates r = ((None, None, Some 0), r)" .
  then have "CurrencyCode (fst (candidate x rates now r)) = None"
    by (simp add: candidate_fields)
  then have "Validate (fst (candidate x rates now r)) \<noteq> None"
    by (simp add: Validate_None_iff)
  with d show ?thesis
    by (simp add: candidate_def)
qed


text \<open>
  Claim C10. Every record that the loop hands to \<^verbatim>\<open>UpsertCountry\<close> has a name, a
  population greater than 0 and a currency code that is present and not empty; so every
  row of the table that \<^verbatim>\<open>Refresh\<close> leaves is a row that was there before the call or a
  row with these three properties. A fetched record without a usable first currency entry
  (the branch that sets the estimate to 0) fails validation: the loop passes over it
  without an upsert, as if it were not in the list. And \<^verbatim>\<open>Refresh\<close> never returns a
  \<^verbatim>\<open>ValidationError\<close>.
\<close>

theorem upserted_records_are_valid:
  "(\<forall>c \<in> set (upserts rates now rcs r).
      Name c \<noteq> [] \<and> 0 < Population c \<and> (\<exists>code. CurrencyCode c = Some code \<and> code \<noteq> [])) \<and>
   (\<forall>rows' row.
      countries (snd (Refresh e db)) = Some rows' \<and> row \<in> set rows' \<longrightarrow>
        (\<exists>rows. countries db = Some rows \<and> row \<in> set rows) \<or>
        (Name row \<noteq> [] \<and> 0 < Population row \<and>
         (\<exists>code. CurrencyCode row = Some code \<and> code \<noteq> []))) \<and>
   (rcCurrencies x = [] \<or> hd (rcCurrencies x) = [] \<longrightarrow>
      EstimatedGDP (fst (candidate x rates now r)) = Some 0 \<and>
      Validate (fst (candidate x rates now r)) \<noteq> None \<and>
      upserts rates now (x # rc) r = upserts rates now rc r \<and>
      merge_loop uerr rates now (x # rc) tx r p = merge_loop uerr rates now rc tx r p) \<and>
   (\<forall>errors. fst (Refresh e db) \<noteq> Inl (ValidationError errors))"
proof -
  have 1: "\<forall>c \<in> set (upserts rates now rcs r).
      Name c \<noteq> [] \<and> 0 < Population c \<and> (\<exists>code. CurrencyCode c = Some code \<and> code \<noteq> [])"
  proof
    fix c
    assume "c \<in> set (upserts rates now rcs r)"
    from upserts_valid [OF this]
    show "Name c \<noteq> [] \<and> 0 < Population c \<and> (\<exists>code. CurrencyCode c = Some code \<and> code \<noteq> [])"
      by (simp add: Validate_None_iff)
  qed
  have 2: "\<forall>rows' row.
      countries (snd (Refresh e db)) = Some rows' \<and> row \<in> set rows' \<longrightarrow>
        (\<exists>rows. countries db = Some rows \<and> row \<in> set rows) \<or>
        (Name row \<noteq> [] \<and> 0 < Population row \<and>
         (\<exists>code. CurrencyCode row = Some code \<and> code \<noteq> []))"
  proof (intro allI impI)
    fix rows' row
    assume "countries (snd (Refresh e db)) = Some rows' \<and> row \<in> set rows'"
    then have "(\<exists>rows. countries db = Some rows \<and> row \<in> set rows) \<or>
         (Validate row = None \<and> LastRefreshedAt row = Some (clock_now e))"
      using Refresh_rows by blast
    then show "(\<exists>rows. countries db = Some rows \<and> row \<in> set rows) \<or>
        (Name row \<noteq> [] \<and> 0 < Population row \<and>
         (\<exists>code. CurrencyCode row = Some code \<and> code \<noteq> []))"
      by (auto simp: Validate_None_iff)
  qed
  have 3: "EstimatedGDP (fst (candidate x rates now r)) = Some 0 \<and>
      Validate (fst (candidate x rates now r)) \<noteq> None \<and>
      upserts rates now (x # rc) r = upserts rates now rc r \<and>
      merge_loop uerr rates now (x # rc) tx r p = merge_loop uerr rates now rc tx r p"
    if z: "rcCurrencies x = [] \<or> hd (rcCurrencies x) = []"
  proof -
    note zf = zero_fallback_rejected [OF z, of rates now r]
    from zf have c: "candidate x rates now r = (fst (candidate x rates now r), r)"
      by simp
    from zf obtain verr where verr: "Validate (fst (candidate x rates now r)) = Some verr"
      by auto
    have "upserts rates now (x # rc) r = upserts rates now rc r"
      using verr by (subst upserts.simps, subst c) simp
    moreover have "merge_loop uerr rates now (x # rc) tx r p = merge_loop uerr rates now rc tx r p"
      using verr by (subst merge_loop.simps, subst c) simp
    ultimately show ?thesis
      using zf by simp
  qed
  have 4: "\<forall>errors. fst (Refresh e db) \<noteq> Inl (ValidationError errors)"
    by (simp add: Refresh_never_validation_error)
  from 1 2 3 4 show ?thesis
    by blast
qed

theorem upserted_records_are_valid_witness:
  "countries (snd (Refresh (sample_env [sample_country ''Atlantis'' 1000000 [],
                                        sample_country ''Wakanda'' 5 [''USD'']]
                                       [''USD'' \<mapsto> 2] 0 no_faults) empty_store)) =
     Some [\<lparr> ID = 1, Name = ''Wakanda'', Capital = None, Region = None, Population = 5,
             CurrencyCode = Some ''USD'', ExchangeRate = Some 2, EstimatedGDP = Some 3750,
             FlagURL = None, LastRefreshedAt = Some 0 \<rparr>] \<and>
   EstimatedGDP (fst (candidate (sample_country ''Atlantis'' 1000000 []) [''USD'' \<mapsto> 2] 0
                        (sconst 500))) = Some 0 \<and>
   Validate (fst (candidate (sample_country ''Atlantis'' 1000000 []) [''USD'' \<mapsto> 2] 0
                    (sconst 500))) \<noteq> None \<and>
   upserts [''USD'' \<mapsto> 2] 0
     [sample_country ''Atlantis'' 1000000 [], sample_country ''Wakanda'' 5 [''USD'']] (sconst 500) =
   upserts [''USD'' \<mapsto> 2] 0 [sample_country ''Wakanda'' 5 [''USD'']] (sconst 500)"
proof -
  have z: "rcCurrencies (sample_country ''Atlantis'' 1000000 []) = [] \<or>
           hd (rcCurrencies (sample_country ''Atlantis'' 1000000 [])) = []"
    by (simp add: sample_country_def)
  have run: "countries (snd (Refresh (sample_env [sample_country ''Atlantis'' 1000000 [],
                                        sample_country ''Wakanda'' 5 [''USD'']]
                                       [''USD'' \<mapsto> 2] 0 no_faults) empty_store)) =
     Some [\<lparr> ID = 1, Name = ''Wakanda'', Capital = None, Region = None, Population = 5,
             CurrencyCode = Some ''USD'', ExchangeRate = Some 2, EstimatedGDP = Some 3750,
             FlagURL = None, LastRefreshedAt = Some 0 \<rparr>]"
    by (simp add: run_defs)
  from upserted_records_are_valid
    [where x = "sample_country ''Atlantis'' 1000000 []" and rates = "[''USD'' \<mapsto> 2]"
       and now = 0 and r = "sconst 500" and rc = "[sample_country ''Wakanda'' 5 [''USD'']]"]
    z run
  show ?thesis
    by blast
qed


subsection \<open>Upsert by name\<close>

lemma sql_eq_refl: "sql_eq a a"
  by (simp add: sql_eq_def)

lemma Name_on_duplicate [simp]:
  "Name (on_duplicate_key_update row c) = Name row" "ID (on_duplicate_key_update row c) = ID row"
  by (simp_all add: on_duplicate_key_update_def)

lemma on_duplicate_same_key:
  "ID row' = ID row \<Longrightarrow> Name row' = Name row \<Longrightarrow>
   on_duplicate_key_update row' c = on_duplicate_key_update row c"
  by (cases row, cases row') (simp add: on_duplicate_key_update_def)

lemma unique_name_filter:
  "distinct (map (\<lambda>row. LOWER (Name row)) rows) \<Longrightarrow>
   length (filter (\<lambda>row. sql_eq (Name row) k) rows) \<le> 1"
proof (induction rows)
  case Nil
  then show ?case by simp
next
  case (Cons a rows)
  show ?case
  proof (cases "sql_eq (Name a) k")
    case True
    have "filter (\<lambda>row. sql_eq (Name row) k) rows = []"
    proof (rule ccontr)
      assume "filter (\<lambda>row. sql_eq (Name row) k) rows \<noteq> []"
      then obtain b where b: "b \<in> set rows" "sql_eq (Name b) k"
        by (metis (mono_tags, lifting) filter_False)
      with True have "LOWER (Name b) = LOWER (Name a)"
        by (simp add: sql_eq_def)
      with b(1) Cons.prems show False
        by (auto simp: image_iff)
    qed
    with True show ?thesis by simp
  next
    case False
    with Cons show ?thesis by simp
  qed
qed

text \<open>One upsert, and the rows whose name equals a given name \<open>k\<close>.\<close>

lemma UpsertCountry_same_name:
  assumes "countries tx = Some rows"
    and "filter (\<lambda>row. sql_eq (Name row) k) rows = [row]"
    and "sql_eq (Name c) k"
  shows "countries (snd (UpsertCountry None tx c)) =
           Some (map (\<lambda>row. if sql_eq (Name row) (Name c)
                              then on_duplicate_key_update row c else row) rows) \<and>
         filter (\<lambda>row. sql_eq (Name row) k)
           (map (\<lambda>row. if sql_eq (Name row) (Name c)
                         then on_duplicate_key_update row c else row) rows) =
           [on_duplicate_key_update row c]"
proof -
  have eq: "sql_eq (Name a) (Name c) \<longleftrightarrow> sql_eq (Name a) k" for a
    using assms(3) by (auto simp: sql_eq_def)
  from assms(2) have "row \<in> set (filter (\<lambda>row. sql_eq (Name row) k) rows)"
    by simp
  then have ex: "\<exists>row \<in> set rows. sql_eq (Name row) (Name c)"
    using eq by auto
  have "filter (\<lambda>row. sql_eq (Name row) k)
           (map (\<lambda>row. if sql_eq (Name row) (Name c)
                         then on_duplicate_key_update row c else row) rows) =
        map (\<lambda>row. on_duplicate_key_update row c) (filter (\<lambda>row. sql_eq (Name row) k) rows)"
    by (induction rows) (auto simp: eq)
  with assms(1,2) ex show ?thesis
    by (simp add: UpsertCountry_def)
qed

lemma UpsertCountry_other_name:
  assumes "countries tx = Some rows" and "\<not> sql_eq (Name c) k"
  shows "\<exists>rows'. countries (snd (UpsertCountry None tx c)) = Some rows' \<and>
           filter (\<lambda>row. sql_eq (Name row) k) rows' = filter (\<lambda>row. sql_eq (Name row) k) rows"
proof -
  have ne: "sql_eq (Name a) (Name c) \<Longrightarrow> \<not> sql_eq (Name a) k" for a
    using assms(2) by (auto simp: sql_eq_def)
  have m: "filter (\<lambda>row. sql_eq (Name row) k)
           (map (\<lambda>row. if sql_eq (Name row) (Name c)
                         then on_duplicate_key_update row c else row) rows) =
        filter (\<lambda>row. sql_eq (Name row) k) rows"
    by (induction rows) (auto dest: ne)
  have i: "filter (\<lambda>row. sql_eq (Name row) k) (rows @ [insert_row (next_id tx) c]) =
        filter (\<lambda>row. sql_eq (Name row) k) rows"
    using assms(2) by (simp add: insert_row_def)
  from assms(1) m i show ?thesis
    by (simp add: UpsertCountry_def)
qed

lemma UpsertCountry_new_name:
  assumes "countries tx = Some rows"
    and "filter (\<lambda>row. sql_eq (Name row) k) rows = []"
    and "sql_eq (Name c) k"
  shows "countries (snd (UpsertCountry None tx c)) = Some (rows @ [insert_row (next_id tx) c]) \<and>
         filter (\<lambda>row. sql_eq (Name row) k) (rows @ [insert_row (next_id tx) c]) =
           [insert_row (next_id tx) c]"
proof -
  have eq: "sql_eq (Name a) (Name c) \<longleftrightarrow> sql_eq (Name a) k" for a
    using assms(3) by (auto simp: sql_eq_def)
  from assms(2) have no: "\<not> (\<exists>row \<in> set rows. sql_eq (Name row) (Name c))"
    by (auto simp: eq filter_empty_conv)
  with assms show ?thesis
    by (simp add: UpsertCountry_def insert_row_def)
qed


lemma UpsertCountry_at_most_one:
  assumes "countries tx = Some rows"
    and "length (filter (\<lambda>row. sql_eq (Name row) k) rows) \<le> 1"
  shows "\<exists>rows'. countries (snd (UpsertCountry None tx c)) = Some rows' \<and>
           length (filter (\<lambda>row. sql_eq (Name row) k) rows') \<le> 1 \<and>
           (sql_eq (Name c) k \<longrightarrow> length (filter (\<lambda>row. sql_eq (Name row) k) rows') = 1)"
proof (cases "sql_eq (Name c) k")
  case False
  with UpsertCountry_other_name [OF assms(1) False] assms(2) show ?thesis
    by auto
next
  case True
  show ?thesis
  proof (cases "filter (\<lambda>row. sql_eq (Name row) k) rows")
    case Nil
    from UpsertCountry_new_name [OF assms(1) Nil True] show ?thesis
      using True by simp
  next
    case (Cons row rest)
    with assms(2) have "filter (\<lambda>row. sql_eq (Name row) k) rows = [row]"
      by simp
    from UpsertCountry_same_name [OF assms(1) this True] show ?thesis
      using True by simp
  qed
qed

lemma run_upserts_at_most_one:
  assumes "countries tx = Some rows"
    and "length (filter (\<lambda>row. sql_eq (Name row) k) rows) \<le> 1"
  shows "\<exists>rows'. countries (run_upserts tx cs) = Some rows' \<and>
           length (filter (\<lambda>row. sql_eq (Name row) k) rows') \<le> 1"
  using assms
proof (induction cs arbitrary: tx rows)
  case Nil
  then show ?case by simp
next
  case (Cons c cs)
  from UpsertCountry_at_most_one [OF Cons.prems, of c]
  obtain rows1 where "countries (snd (UpsertCountry None tx c)) = Some rows1"
    "length (filter (\<lambda>row. sql_eq (Name row) k) rows1) \<le> 1"
    by blast
  from Cons.IH [OF this] show ?case
    by simp
qed

lemma run_upserts_keeps_row:
  assumes "countries tx = Some rows"
    and "filter (\<lambda>row. sql_eq (Name row) k) rows = [row]"
  shows "\<exists>rows' row'. countries (run_upserts tx cs) = Some rows' \<and>
           filter (\<lambda>row. sql_eq (Name row) k) rows' = [row'] \<and>
           ID row' = ID row \<and> Name row' = Name row \<and>
           ((\<forall>c \<in> set cs. \<not> sql_eq (Name c) k) \<longrightarrow> row' = row)"
  using assms
proof (induction cs arbitrary: tx rows row)
  case Nil
  then show ?case by simp
next
  case (Cons c cs)
  have "\<exists>rows1 row1. countries (snd (UpsertCountry None tx c)) = Some rows1 \<and>
          filter (\<lambda>row. sql_eq (Name row) k) rows1 = [row1] \<and>
          ID row1 = ID row \<and> Name row1 = Name row \<and> (\<not> sql_eq (Name c) k \<longrightarrow> row1 = row)"
  proof (cases "sql_eq (Name c) k")
    case True
    from UpsertCountry_same_name [OF Cons.prems True] show ?thesis
      using True by simp
  next
    case False
    from UpsertCountry_other_name [OF Cons.prems(1) False] Cons.prems(2) show ?thesis
      using False by auto
  qed
  then obtain rows1 row1 where 1: "countries (snd (UpsertCountry None tx c)) = Some rows1"
    "filter (\<lambda>row. sql_eq (Name row) k) rows1 = [row1]"
    "ID row1 = ID row" "Name row1 = Name row" "\<not> sql_eq (Name c) k \<longrightarrow> row1 = row"
    by blast
  from Cons.IH [OF 1(1,2)] obtain rows' row' where
    2: "countries (run_upserts (snd (UpsertCountry None tx c)) cs) = Some rows'"
      "filter (\<lambda>row. sql_eq (Name row) k) rows' = [row']"
      "ID row' = ID row1" "Name row' = Name row1"
      "(\<forall>c \<in> set cs. \<not> sql_eq (Name c) k) \<longrightarrow> row' = row1"
    by blast
  from 1 2 show ?case
    by auto
qed

lemma run_upserts_establishes:
  assumes "countries tx = Some rows"
    and "length (filter (\<lambda>row. sql_eq (Name row) k) rows) \<le> 1"
    and "c \<in> set cs" and "sql_eq (Name c) k"
  shows "\<exists>rows' row'. countries (run_upserts tx cs) = Some rows' \<and>
           filter (\<lambda>row. sql_eq (Name row) k) rows' = [row']"
proof -
  from assms(3) obtain pre post where cs: "cs = pre @ c # post"
    by (auto dest: split_list)
  from run_upserts_at_most_one [OF assms(1,2), of pre]
  obtain rows1 where 1: "countries (run_upserts tx pre) = Some rows1"
    "length (filter (\<lambda>row. sql_eq (Name row) k) rows1) \<le> 1"
    by blast
  from UpsertCountry_at_most_one [OF 1, of c] assms(4)
  obtain rows2 where 2: "countries (snd (UpsertCountry None (run_upserts tx pre) c)) = Some rows2"
    "length (filter (\<lambda>row. sql_eq (Name row) k) rows2) = 1"
    by blast
  from 2(2) obtain row2 where "filter (\<lambda>row. sql_eq (Name row) k) rows2 = [row2]"
    by (auto simp: length_Suc_conv)
  from run_upserts_keeps_row [OF 2(1) this, of post] show ?thesis
    by (auto simp: cs run_upserts_append)
qed

lemma run_upserts_last_write:
  assumes "countries tx = Some rows"
    and "filter (\<lambda>row. sql_eq (Name row) k) rows = [row]"
    and "sql_eq (Name c) k"
    and "\<forall>d \<in> set post. \<not> sql_eq (Name d) k"
  shows "\<exists>rows'. countries (run_upserts tx (pre @ c # post)) = Some rows' \<and>
           filter (\<lambda>row. sql_eq (Name row) k) rows' = [on_duplicate_key_update row c]"
proof -
  from run_upserts_keeps_row [OF assms(1,2), of pre]
  obtain rows1 row1 where 1: "countries (run_upserts tx pre) = Some rows1"
    "filter (\<lambda>row. sql_eq (Name row) k) rows1 = [row1]" "ID row1 = ID row" "Name row1 = Name row"
    by blast
  from UpsertCountry_same_name [OF 1(1,2) assms(3)]
  obtain rows2 where 2: "countries (snd (UpsertCountry None (run_upserts tx pre) c)) = Some rows2"
    "filter (\<lambda>row. sql_eq (Name row) k) rows2 = [on_duplicate_key_update row1 c]"
    by blast
  from run_upserts_keeps_row [OF 2, of post] assms(4)
  obtain rows' where "countries (run_upserts (snd (UpsertCountry None (run_upserts tx pre) c)) post) =
      Some rows'"
    "filter (\<lambda>row. sql_eq (Name row) k) rows' = [on_duplicate_key_update row1 c]"
    by auto
  then show ?thesis
    using on_duplicate_same_key [OF 1(3,4), of c] by (simp add: run_upserts_append)
qed

lemma upserts_names:
  "c \<in> set (upserts rates now ys r) \<Longrightarrow> \<exists>y \<in> set ys. Name c = rcName y"
proof (induction ys arbitrary: r)
  case Nil
  then show ?case by simp
next
  case (Cons x ys)
  obtain c1 r1 where c1: "candidate x rates now r = (c1, r1)"
    by (cases "candidate x rates now r")
  have n: "Name c1 = rcName x"
    using candidate_fields(4) [of x rates now r] c1 by simp
  from Cons.prems c1 consider "c \<in> set (upserts rates now ys r)"
    | "c \<in> set (upserts rates now ys r1)" | "c = c1"
    by (auto split: if_splits option.splits)
  then show ?case
    using Cons.IH n by cases auto
qed

lemma upserts_split:
  assumes "Validate (fst (candidate x rates now r0)) = None"
  shows "\<exists>r' r''. upserts rates now (pre @ x # post) r =
           upserts rates now pre r @ fst (candidate x rates now r') # upserts rates now post r''"
proof (induction pre arbitrary: r)
  case Nil
  have v: "Validate (fst (candidate x rates now r)) = None"
    using assms Validate_candidate_indep by metis
  then have "rcName x \<noteq> []"
    by (simp add: Validate_None_iff candidate_fields)
  obtain c1 r1 where c1: "candidate x rates now r = (c1, r1)"
    by (cases "candidate x rates now r")
  with v \<open>rcName x \<noteq> []\<close>
  have "upserts rates now ([] @ x # post) r =
          upserts rates now [] r @ fst (candidate x rates now r) # upserts rates now post r1"
    by simp
  then show ?case
    by blast
next
  case (Cons a pre)
  obtain c1 r1 where c1: "candidate a rates now r = (c1, r1)"
    by (cases "candidate a rates now r")
  from Cons [of r] Cons [of r1] c1 show ?case
    by (auto split: option.splits)
qed

lemma upserts_contains:
  assumes "x \<in> set rcs" and "Validate (fst (candidate x rates now r0)) = None"
  shows "\<exists>c \<in> set (upserts rates now rcs r). Name c = rcName x"
proof -
  from assms(1) obtain pre post where "rcs = pre @ x # post"
    by (auto dest: split_list)
  with upserts_split [OF assms(2), of pre post r] show ?thesis
    by (auto simp: candidate_fields)
qed


lemma Refresh_success_rows:
  assumes "countries_response e = Response 200 (Some rcs)"
    and "rates_response e = Response 200 (Some rr)"
    and "Refresh e db = (Inr res, db')"
  shows "\<exists>tx rows. countries tx = Some rows \<and>
           rows = (case countries db of None \<Rightarrow> [] | Some old \<Rightarrow> old) \<and>
           countries db' = countries (run_upserts tx (upserts (Rates rr) (clock_now e) rcs (seeded_rand e)))"
proof -
  from Refresh_success [OF assms] obtain db1 where
    d: "EnsureTables (db_faults e) db = (None, db1)" "countries db1 \<noteq> None"
      "in_transaction (db_faults e) rcs rr (clock_now e) (seeded_rand e) db1 = (Inr res, db')"
    by blast
  from EnsureTables_ok [OF d(1)]
  have "countries db1 = Some (case countries db of None \<Rightarrow> [] | Some old \<Rightarrow> old)"
    by (simp split: option.splits)
  with in_transaction_success [OF d(3) d(2)] show ?thesis
    by blast
qed

lemma on_duplicate_key_update_columns:
  "on_duplicate_key_update row c =
     \<lparr> ID = ID row, Name = Name row, Capital = Capital c, Region = Region c,
       Population = Population c, CurrencyCode = CurrencyCode c,
       ExchangeRate = ExchangeRate c, EstimatedGDP = EstimatedGDP c,
       FlagURL = FlagURL c, LastRefreshedAt = LastRefreshedAt c \<rparr>"
  by (cases row) (simp add: on_duplicate_key_update_def)

lemma valid_candidate_columns:
  assumes "Validate (fst (candidate x rates now r)) = None"
  shows "fst (candidate x rates now r) =
     \<lparr> ID = 0, Name = rcName x,
       Capital = (if rcCapital x \<noteq> [] then Some (rcCapital x) else None),
       Region = (if rcRegion x \<noteq> [] then Some (rcRegion x) else None),
       Population = rcPopulation x,
       CurrencyCode = Some (rcCurrencies x ! 0),
       ExchangeRate = rates (rcCurrencies x ! 0),
       EstimatedGDP =
         (case rates (rcCurrencies x ! 0) of
            None \<Rightarrow> None
          | Some rate \<Rightarrow> Some (estimate (rcPopulation x) (fst (Intn r 1001) + 1000) rate)),
       FlagURL = (if rcFlag x \<noteq> [] then Some (rcFlag x) else None),
       LastRefreshedAt = Some now \<rparr>"
proof -
  from assms have "CurrencyCode (fst (candidate x rates now r)) \<noteq> None"
    by (auto simp: Validate_None_iff)
  then have c: "length (rcCurrencies x) > 0 \<and> rcCurrencies x ! 0 \<noteq> []"
    by (auto simp: candidate_fields derive_def split: if_splits)
  then show ?thesis
    by (simp add: candidate_def derive_def Let_def split: option.splits prod.splits)
qed

text \<open>
  Claim C9. Let the database satisfy the unique key on the name, let a first run succeed
  on a source list that contains a record \<open>x1\<close> which passes validation (so that its upsert
  takes place: the record named Wakanda with population 5), and let a second run succeed on
  a list in which \<open>x2\<close>, of the same name, passes validation and is followed by no other
  record of that name (the record named Wakanda with population 9). Then after the first
  run exactly one row has that name, and after the second run exactly one row has it. That
  row has the \<^verbatim>\<open>id\<close> and the stored name of the row of the first run, so no duplicate was
  inserted, and each of its eight other columns is the one derived from \<open>x2\<close> in the second
  run: capital, region, population, currency code, exchange rate, estimated value (for the
  multiplier drawn in that run), flag and the time of the run.
\<close>

theorem upsert_by_name_overwrites:
  assumes "unique_name db0"
    and "countries_response e1 = Response 200 (Some rcs1)"
    and "rates_response e1 = Response 200 (Some rr1)"
    and "Refresh e1 db0 = (Inr res1, db1)"
    and "countries_response e2 = Response 200 (Some (pre @ x2 # post))"
    and "rates_response e2 = Response 200 (Some rr2)"
    and "Refresh e2 db1 = (Inr res2, db2)"
    and "x1 \<in> set rcs1"
    and "Validate (fst (candidate x1 (Rates rr1) (clock_now e1) r1)) = None"
    and "Validate (fst (candidate x2 (Rates rr2) (clock_now e2) r2)) = None"
    and "sql_eq (rcName x1) (rcName x2)"
    and "\<forall>y \<in> set post. \<not> sql_eq (rcName y) (rcName x2)"
  shows "\<exists>rows1 rows2 row1 row2 n.
           countries db1 = Some rows1 \<and>
           filter (\<lambda>row. sql_eq (Name row) (rcName x2)) rows1 = [row1] \<and>
           countries db2 = Some rows2 \<and>
           filter (\<lambda>row. sql_eq (Name row) (rcName x2)) rows2 = [row2] \<and>
           n < 1001 \<and>
           row2 =
             \<lparr> ID = ID row1, Name = Name row1,
               Capital = (if rcCapital x2 \<noteq> [] then Some (rcCapital x2) else None),
               Region = (if rcRegion x2 \<noteq> [] then Some (rcRegion x2) else None),
               Population = rcPopulation x2,
               CurrencyCode = Some (rcCurrencies x2 ! 0),
               ExchangeRate = Rates rr2 (rcCurrencies x2 ! 0),
               EstimatedGDP =
                 (case Rates rr2 (rcCurrencies x2 ! 0) of
                    None \<Rightarrow> None
                  | Some rate \<Rightarrow> Some (estimate (rcPopulation x2) (n + 1000) rate)),
               FlagURL = (if rcFlag x2 \<noteq> [] then Some (rcFlag x2) else None),
               LastRefreshedAt = Some (clock_now e2) \<rparr>"
proof -
  let ?K = "\<lambda>row. sql_eq (Name row) (rcName x2)"
  from Refresh_success_rows [OF assms(2,3,4)] obtain tx1 rows0 where
    1: "countries tx1 = Some rows0"
      "rows0 = (case countries db0 of None \<Rightarrow> [] | Some old \<Rightarrow> old)"
      "countries db1 =
         countries (run_upserts tx1 (upserts (Rates rr1) (clock_now e1) rcs1 (seeded_rand e1)))"
    by blast
  from assms(1) 1(2) have "distinct (map (\<lambda>row. LOWER (Name row)) rows0)"
    by (simp add: unique_name_def split: option.splits)
  then have le: "length (filter ?K rows0) \<le> 1"
    by (rule unique_name_filter)
  from upserts_contains [OF assms(8,9)] obtain c1 where
    c1: "c1 \<in> set (upserts (Rates rr1) (clock_now e1) rcs1 (seeded_rand e1))" "Name c1 = rcName x1"
    by blast
  from c1(2) assms(11) have "sql_eq (Name c1) (rcName x2)"
    by simp
  from run_upserts_establishes [OF 1(1) le c1(1) this] 1(3) obtain rows1 row1 where
    r1: "countries db1 = Some rows1" "filter ?K rows1 = [row1]"
    by auto
  from Refresh_success_rows [OF assms(5,6,7)] r1(1) obtain tx2 where
    2: "countries tx2 = Some rows1"
      "countries db2 =
         countries (run_upserts tx2
           (upserts (Rates rr2) (clock_now e2) (pre @ x2 # post) (seeded_rand e2)))"
    by auto
  from upserts_split [OF assms(10), of pre post "seeded_rand e2"] obtain r' r'' where
    sp: "upserts (Rates rr2) (clock_now e2) (pre @ x2 # post) (seeded_rand e2) =
           upserts (Rates rr2) (clock_now e2) pre (seeded_rand e2) @
           fst (candidate x2 (Rates rr2) (clock_now e2) r') #
           upserts (Rates rr2) (clock_now e2) post r''"
    by blast
  let ?c2 = "fst (candidate x2 (Rates rr2) (clock_now e2) r')"
  have k2: "sql_eq (Name ?c2) (rcName x2)"
    by (simp add: candidate_fields sql_eq_refl)
  have others: "\<forall>d \<in> set (upserts (Rates rr2) (clock_now e2) post r''). \<not> sql_eq (Name d) (rcName x2)"
    using assms(12) by (auto dest!: upserts_names)
  from run_upserts_last_write [OF 2(1) r1(2) k2 others] 2(2) sp obtain rows2 where
    r2: "countries db2 = Some rows2" "filter ?K rows2 = [on_duplicate_key_update row1 ?c2]"
    by auto
  have v: "Validate ?c2 = None"
    using assms(10) Validate_candidate_indep by metis
  define n where "n = fst (Intn r' 1001)"
  have n: "n < 1001"
    by (simp add: n_def Intn_def)
  have "on_duplicate_key_update row1 ?c2 =
     \<lparr> ID = ID row1, Name = Name row1,
       Capital = (if rcCapital x2 \<noteq> [] then Some (rcCapital x2) else None),
       Region = (if rcRegion x2 \<noteq> [] then Some (rcRegion x2) else None),
       Population = rcPopulation x2,
       CurrencyCode = Some (rcCurrencies x2 ! 0),
       ExchangeRate = Rates rr2 (rcCurrencies x2 ! 0),
       EstimatedGDP =
         (case Rates rr2 (rcCurrencies x2 ! 0) of
            None \<Rightarrow> None
          | Some rate \<Rightarrow> Some (estimate (rcPopulation x2) (n + 1000) rate)),
       FlagURL = (if rcFlag x2 \<noteq> [] then Some (rcFlag x2) else None),
       LastRefreshedAt = Some (clock_now e2) \<rparr>"
    unfolding n_def
    by (simp add: on_duplicate_key_update_columns valid_candidate_columns [OF v])
  with r1 r2 n show ?thesis
    by blast
qed


theorem upsert_by_name_overwrites_witness:
  "Refresh (sample_env [(sample_country ''Wakanda'' 5 [''USD''])
                          \<lparr>rcCapital := ''Birnin Zana'', rcRegion := ''Africa'', rcFlag := ''w1.svg''\<rparr>]
                       [''USD'' \<mapsto> 2, ''EUR'' \<mapsto> 4] 1 no_faults)
           empty_store =
     (Inr \<lparr> Total = 1, LastRefreshed = 1 \<rparr>,
      \<lparr> countries = Some
          [\<lparr> ID = 1, Name = ''Wakanda'', Capital = Some ''Birnin Zana'', Region = Some ''Africa'',
             Population = 5, CurrencyCode = Some ''USD'', ExchangeRate = Some 2,
             EstimatedGDP = Some 3750, FlagURL = Some ''w1.svg'', LastRefreshedAt = Some 1 \<rparr>],
        metadata = Some [''last_refreshed_at'' \<mapsto> \<lparr> meta_value = RFC3339 0, updated_at = 1 \<rparr>],
        next_id = 2 \<rparr>) \<and>
   countries (snd (Refresh
       (sample_env [(sample_country ''Wakanda'' 9 [''EUR''])
                      \<lparr>rcCapital := ''Golden City'', rcFlag := ''w2.svg''\<rparr>]
                   [''USD'' \<mapsto> 2, ''EUR'' \<mapsto> 4] 2 no_faults)
       (snd (Refresh (sample_env [(sample_country ''Wakanda'' 5 [''USD''])
                          \<lparr>rcCapital := ''Birnin Zana'', rcRegion := ''Africa'', rcFlag := ''w1.svg''\<rparr>]
                       [''USD'' \<mapsto> 2, ''EUR'' \<mapsto> 4] 1 no_faults)
                     empty_store)))) =
     Some [\<lparr> ID = 1, Name = ''Wakanda'', Capital = Some ''Golden City'', Region = None,
             Population = 9, CurrencyCode = Some ''EUR'', ExchangeRate = Some 4,
             EstimatedGDP = Some 3375, FlagURL = Some ''w2.svg'', LastRefreshedAt = Some 2 \<rparr>] \<and>
   (\<exists>rows2 row2 n.
      countries (snd (Refresh
        (sample_env [(sample_country ''Wakanda'' 9 [''EUR''])
                      \<lparr>rcCapital := ''Golden City'', rcFlag := ''w2.svg''\<rparr>]
                    [''USD'' \<mapsto> 2, ''EUR'' \<mapsto> 4] 2 no_faults)
        (snd (Refresh (sample_env [(sample_country ''Wakanda'' 5 [''USD''])
                          \<lparr>rcCapital := ''Birnin Zana'', rcRegion := ''Africa'', rcFlag := ''w1.svg''\<rparr>]
                       [''USD'' \<mapsto> 2, ''EUR'' \<mapsto> 4] 1 no_faults)
                      empty_store)))) = Some rows2 \<and>
      filter (\<lambda>row. sql_eq (Name row) ''Wakanda'') rows2 = [row2] \<and>
      n < 1001 \<and>
      row2 = \<lparr> ID = 1, Name = ''Wakanda'', Capital = Some ''Golden City'', Region = None,
               Population = 9, CurrencyCode = Some ''EUR'', ExchangeRate = Some 4,
               EstimatedGDP = Some (estimate 9 (n + 1000) 4), FlagURL = Some ''w2.svg'',
               LastRefreshedAt = Some 2 \<rparr>)"
proof -
  let ?x1 = "(sample_country ''Wakanda'' 5 [''USD''])
               \<lparr>rcCapital := ''Birnin Zana'', rcRegion := ''Africa'', rcFlag := ''w1.svg''\<rparr>"
  let ?x2 = "(sample_country ''Wakanda'' 9 [''EUR''])
               \<lparr>rcCapital := ''Golden City'', rcFlag := ''w2.svg''\<rparr>"
  let ?rates = "[''USD'' \<mapsto> 2::real, ''EUR'' \<mapsto> 4]"
  let ?rr = "\<lparr> Result = ''success'', Rates = ?rates \<rparr>"
  let ?e1 = "sample_env [?x1] ?rates 1 no_faults"
  let ?e2 = "sample_env [?x2] ?rates 2 no_faults"
  let ?row1 = "\<lparr> ID = 1, Name = ''Wakanda'', Capital = Some ''Birnin Zana'', Region = Some ''Africa'',
             Population = 5, CurrencyCode = Some ''USD'', ExchangeRate = Some (2::real),
             EstimatedGDP = Some (3750::real), FlagURL = Some ''w1.svg'',
             LastRefreshedAt = Some (1::int) \<rparr>"
  let ?db1 = "\<lparr> countries = Some [?row1],
        metadata = Some [''last_refreshed_at'' \<mapsto> \<lparr> meta_value = RFC3339 0, updated_at = 1 \<rparr>],
        next_id = 2 \<rparr>"
  let ?rows2 = "[\<lparr> ID = 1, Name = ''Wakanda'', Capital = Some ''Golden City'', Region = None,
             Population = 9, CurrencyCode = Some ''EUR'', ExchangeRate = Some (4::real),
             EstimatedGDP = Some (3375::real), FlagURL = Some ''w2.svg'',
             LastRefreshedAt = Some (2::int) \<rparr>]"
  let ?db2 = "\<lparr> countries = Some ?rows2,
        metadata = Some [''last_refreshed_at'' \<mapsto> \<lparr> meta_value = RFC3339 0, updated_at = 2 \<rparr>],
        next_id = 2 \<rparr>"
  have run1: "Refresh ?e1 empty_store = (Inr \<lparr> Total = 1, LastRefreshed = 1 \<rparr>, ?db1)"
    by (simp add: run_defs)
  have run2: "Refresh ?e2 ?db1 = (Inr \<lparr> Total = 1, LastRefreshed = 2 \<rparr>, ?db2)"
    by (simp add: run_defs)
  have u: "unique_name empty_store"
    by (simp add: unique_name_def empty_store_def)
  have s1: "countries_response ?e1 = Response 200 (Some [?x1])"
    "rates_response ?e1 = Response 200 (Some ?rr)"
    by (simp_all add: sample_env_def)
  have s2: "countries_response ?e2 = Response 200 (Some ([] @ ?x2 # []))"
    "rates_response ?e2 = Response 200 (Some ?rr)"
    by (simp_all add: sample_env_def)
  have v1: "Validate (fst (candidate ?x1 (Rates ?rr) (clock_now ?e1) (sconst 0))) = None"
    by (simp add: sample_country_def candidate_def derive_def Intn_def Validate_def)
  have v2: "Validate (fst (candidate ?x2 (Rates ?rr) (clock_now ?e2) (sconst 0))) = None"
    by (simp add: sample_country_def candidate_def derive_def Intn_def Validate_def)
  have k: "sql_eq (rcName ?x1) (rcName ?x2)"
    by (simp add: sample_country_def sql_eq_def)
  from upsert_by_name_overwrites [OF u s1 run1 s2 run2 _ v1 v2 k]
  obtain rows1 rows2 row1 row2 n where
    w: "countries ?db1 = Some rows1"
      "filter (\<lambda>row. sql_eq (Name row) (rcName ?x2)) rows1 = [row1]"
      "countries ?db2 = Some rows2"
      "filter (\<lambda>row. sql_eq (Name row) (rcName ?x2)) rows2 = [row2]"
      "n < 1001"
      "row2 =
         \<lparr> ID = ID row1, Name = Name row1,
           Capital = (if rcCapital ?x2 \<noteq> [] then Some (rcCapital ?x2) else None),
           Region = (if rcRegion ?x2 \<noteq> [] then Some (rcRegion ?x2) else None),
           Population = rcPopulation ?x2,
           CurrencyCode = Some (rcCurrencies ?x2 ! 0),
           ExchangeRate = Rates ?rr (rcCurrencies ?x2 ! 0),
           EstimatedGDP =
             (case Rates ?rr (rcCurrencies ?x2 ! 0) of
                None \<Rightarrow> None
              | Some rate \<Rightarrow> Some (estimate (rcPopulation ?x2) (n + 1000) rate)),
           FlagURL = (if rcFlag ?x2 \<noteq> [] then Some (rcFlag ?x2) else None),
           LastRefreshedAt = Some (clock_now ?e2) \<rparr>"
    by auto
  from w(1,2) have "row1 = ?row1"
    by (auto simp: sample_country_def sql_eq_def)
  with w(3-6) have F: "countries ?db2 = Some rows2 \<and>
      filter (\<lambda>row. sql_eq (Name row) ''Wakanda'') rows2 = [row2] \<and>
      n < 1001 \<and>
      row2 = \<lparr> ID = 1, Name = ''Wakanda'', Capital = Some ''Golden City'', Region = None,
               Population = 9, CurrencyCode = Some ''EUR'', ExchangeRate = Some 4,
               EstimatedGDP = Some (estimate 9 (n + 1000) 4), FlagURL = Some ''w2.svg'',
               LastRefreshedAt = Some 2 \<rparr>"
    by (simp add: sample_country_def sample_env_def)
  have db2: "snd (Refresh ?e2 (snd (Refresh ?e1 empty_store))) = ?db2"
    by (simp add: run1 run2)
  have cs: "countries (snd (Refresh ?e2 (snd (Refresh ?e1 empty_store)))) = Some ?rows2"
    by (simp add: db2)
  have ex: "\<exists>rows2 row2 n.
      countries (snd (Refresh ?e2 (snd (Refresh ?e1 empty_store)))) = Some rows2 \<and>
      filter (\<lambda>row. sql_eq (Name row) ''Wakanda'') rows2 = [row2] \<and>
      n < 1001 \<and>
      row2 = \<lparr> ID = 1, Name = ''Wakanda'', Capital = Some ''Golden City'', Region = None,
               Population = 9, CurrencyCode = Some ''EUR'', ExchangeRate = Some 4,
               EstimatedGDP = Some (estimate 9 (n + 1000) 4), FlagURL = Some ''w2.svg'',
               LastRefreshedAt = Some 2 \<rparr>"
    unfolding db2 using F by blast
  show ?thesis
    by (rule conjI [OF run1 conjI [OF cs ex]])
qed


subsection \<open>Listing\<close>
















end
